theory Spec2Isabelle
  imports Main
begin

section \<open>JavaScript values held by the variable store\<close>

text \<open>
  The store of \<^verbatim>\<open>frontend/src/stores/variableStore.ts\<close> keeps values of type
  \<^verbatim>\<open>unknown\<close>. The values stored are modelled as the JSON-like values the workflow
  nodes produce, plus \<^verbatim>\<open>undefined\<close>. An object is the list of its own properties in
  enumeration order, each key once; its prototype is \<^verbatim>\<open>Object.prototype\<close>, that of a
  list is \<^verbatim>\<open>Array.prototype\<close>. A \<open>char\<close> stands for one UTF-16 code unit below 256.

  A property read that finds no own property continues along the prototype chain, so a
  read can also yield an object of the host (a built-in function such as
  \<^verbatim>\<open>Object.prototype.toString\<close>, or a prototype itself). Such an object is a
  \<open>hostref\<close>, and what a read yields is a \<open>reading\<close>: a stored value or a host object.

  The type of numbers is a parameter \<open>'n\<close>. The arithmetic of IEEE doubles and the
  behaviour of the host's objects are not reproduced: they are taken from a record of the
  host's primitives (\<open>host\<close> below). A theorem stated for a record \<open>P\<close> holds for any
  such record; the record \<open>integer_host\<close> further down serves for evaluation.
\<close>

datatype error = TypeError

datatype hostref = HostRef string

datatype 'n jsval =
    JUndefined
  | JNull
  | JBool bool
  | JNumber 'n
  | JString string
  | JArray "'n jsval list"
  | JObject "(string \<times> 'n jsval) list"

datatype 'n reading = Value "'n jsval" | Host hostref

record 'n host =
  n_nan :: 'n
  n_zero :: 'n
  n_negzero :: 'n
  n_one :: 'n
  n_plus :: "'n \<Rightarrow> 'n \<Rightarrow> 'n"
  n_minus :: "'n \<Rightarrow> 'n \<Rightarrow> 'n"
  n_times :: "'n \<Rightarrow> 'n \<Rightarrow> 'n"
  n_divide :: "'n \<Rightarrow> 'n \<Rightarrow> 'n"
  n_of_nat :: "nat \<Rightarrow> 'n"
  n_finite :: "'n \<Rightarrow> bool"
  n_parse :: "string \<Rightarrow> 'n"
  n_render :: "'n \<Rightarrow> string"
  h_object_member :: "string \<Rightarrow> hostref"
  h_array_member :: "string \<Rightarrow> hostref option"
  h_member :: "hostref \<Rightarrow> string \<Rightarrow> error + 'n reading"
  h_is_object :: "hostref \<Rightarrow> bool"
  h_number :: "hostref \<Rightarrow> 'n"
  h_string :: "hostref \<Rightarrow> string"
  h_json :: "hostref \<Rightarrow> string option"

text \<open>
  \<open>n_parse\<close> is \<^verbatim>\<open>Number(s)\<close> on a string, \<open>n_render\<close> is \<^verbatim>\<open>String(n)\<close> on a
  number, \<open>n_zero\<close> and \<open>n_negzero\<close> are \<^verbatim>\<open>+0\<close> and \<^verbatim>\<open>-0\<close>.

  \<open>h_object_member name\<close> is what \<^verbatim>\<open>o[name]\<close> yields on a plain object \<open>o\<close> that has
  no own property \<open>name\<close>, for a property name of \<^verbatim>\<open>Object.prototype\<close>.
  \<open>h_array_member name\<close> is what \<^verbatim>\<open>a[name]\<close> yields on a list \<open>a\<close> for a name that is
  neither a position of the list nor \<^verbatim>\<open>length\<close>; \<open>None\<close> is \<^verbatim>\<open>undefined\<close>.
  \<open>h_member h name\<close> is the read \<^verbatim>\<open>h[name]\<close> on a host object, which can raise (the
  accessors \<^verbatim>\<open>caller\<close> and \<^verbatim>\<open>arguments\<close> of a built-in function do).
  \<open>h_is_object h\<close> is \<^verbatim>\<open>typeof h === 'object'\<close> (false of a function), and
  \<open>h_number\<close>, \<open>h_string\<close>, \<open>h_json\<close> are \<^verbatim>\<open>Number(h)\<close>, \<^verbatim>\<open>String(h)\<close> and
  \<^verbatim>\<open>JSON.stringify(h)\<close>.
\<close>

text \<open>The property names of \<^verbatim>\<open>Object.prototype\<close>.\<close>

definition object_prototype_names :: "string list" where
  "object_prototype_names =
     [''constructor'', ''__defineGetter__'', ''__defineSetter__'', ''hasOwnProperty'',
      ''__lookupGetter__'', ''__lookupSetter__'', ''isPrototypeOf'',
      ''propertyIsEnumerable'', ''toString'', ''valueOf'', ''__proto__'',
      ''toLocaleString'']"

definition inherited_object :: "'n host \<Rightarrow> string \<Rightarrow> 'n reading" where
  "inherited_object P name =
     (if name \<in> set object_prototype_names then Host (h_object_member P name)
      else Value JUndefined)"

definition inherited_array :: "'n host \<Rightarrow> string \<Rightarrow> 'n reading" where
  "inherited_array P name =
     (case h_array_member P name of None \<Rightarrow> Value JUndefined | Some h \<Rightarrow> Host h)"

subsection \<open>Strings\<close>

fun split_on :: "char \<Rightarrow> string \<Rightarrow> string list" where
  "split_on d [] = [[]]"
| "split_on d (c # cs) =
     (if c = d then [] # split_on d cs
      else (case split_on d cs of
              [] \<Rightarrow> [[c]]
            | x # xs \<Rightarrow> (c # x) # xs))"

fun join_with :: "string \<Rightarrow> string list \<Rightarrow> string" where
  "join_with sep [] = []"
| "join_with sep [x] = x"
| "join_with sep (x # y # ys) = x @ sep @ join_with sep (y # ys)"

definition is_space :: "char \<Rightarrow> bool" where
  "is_space c = (c = CHR 0x09 \<or> c = CHR 0x0A \<or> c = CHR 0x0B \<or> c = CHR 0x0C \<or>
                 c = CHR 0x0D \<or> c = CHR 0x20 \<or> c = CHR 0xA0)"

definition trim :: "string \<Rightarrow> string" where
  "trim s = rev (dropWhile is_space (rev (dropWhile is_space s)))"

definition is_digit :: "char \<Rightarrow> bool" where
  "is_digit c = (48 \<le> (of_char c :: nat) \<and> (of_char c :: nat) \<le> 57)"

definition digits_value :: "string \<Rightarrow> nat" where
  "digits_value k = foldl (\<lambda>a c. 10 * a + (of_char c - 48)) 0 k"

text \<open>An array index is a canonical decimal string: digits only, no leading zero.\<close>

definition array_index :: "string \<Rightarrow> nat option" where
  "array_index k =
     (if k \<noteq> [] \<and> list_all is_digit k \<and> (k = ''0'' \<or> hd k \<noteq> CHR ''0'')
      then Some (digits_value k) else None)"

subsection \<open>Coercions\<close>

text \<open>\<^verbatim>\<open>typeof v === 'object'\<close> holds of \<^verbatim>\<open>null\<close>, arrays and objects.\<close>

fun typeof_object :: "'n jsval \<Rightarrow> bool" where
  "typeof_object JNull = True"
| "typeof_object (JArray xs) = True"
| "typeof_object (JObject kvs) = True"
| "typeof_object v = False"

fun is_nullish :: "'n jsval \<Rightarrow> bool" where
  "is_nullish JUndefined = True"
| "is_nullish JNull = True"
| "is_nullish v = False"

definition number_falsy :: "'n host \<Rightarrow> 'n \<Rightarrow> bool" where
  "number_falsy P n = (n = n_nan P \<or> n = n_zero P \<or> n = n_negzero P)"

text \<open>The truth value of \<^verbatim>\<open>v\<close> in \<^verbatim>\<open>!v\<close> and \<^verbatim>\<open>v || d\<close>.\<close>

fun truthy :: "'n host \<Rightarrow> 'n jsval \<Rightarrow> bool" where
  "truthy P JUndefined = False"
| "truthy P JNull = False"
| "truthy P (JBool b) = b"
| "truthy P (JNumber n) = (\<not> number_falsy P n)"
| "truthy P (JString s) = (s \<noteq> [])"
| "truthy P (JArray xs) = True"
| "truthy P (JObject kvs) = True"

text \<open>The results of a list of conversions, or the first error.\<close>

fun sequence_results :: "(error + 'a) list \<Rightarrow> error + 'a list" where
  "sequence_results [] = Inr []"
| "sequence_results (Inl e # rs) = Inl e"
| "sequence_results (Inr x # rs) =
     (case sequence_results rs of Inl e \<Rightarrow> Inl e | Inr xs \<Rightarrow> Inr (x # xs))"

text \<open>
  \<^verbatim>\<open>String(v)\<close>. An object is converted by its \<^verbatim>\<open>toString\<close> and \<^verbatim>\<open>valueOf\<close>
  methods. A list has the inherited \<^verbatim>\<open>Array.prototype.toString\<close>, which joins the
  elements with commas, \<^verbatim>\<open>null\<close> and \<^verbatim>\<open>undefined\<close> elements as the empty string and
  every other element by \<^verbatim>\<open>String\<close>. A mapping without an own \<^verbatim>\<open>toString\<close> entry
  has the inherited \<^verbatim>\<open>Object.prototype.toString\<close> and is \<^verbatim>\<open>[object Object]\<close>. A
  mapping with an own \<^verbatim>\<open>toString\<close> entry has a value there that cannot be called, and
  \<^verbatim>\<open>valueOf\<close> (inherited, or an own entry that cannot be called either) yields no
  primitive: the conversion raises \<^verbatim>\<open>TypeError\<close>.
\<close>

fun ToString :: "'n host \<Rightarrow> 'n jsval \<Rightarrow> error + string" where
  "ToString P JUndefined = Inr ''undefined''"
| "ToString P JNull = Inr ''null''"
| "ToString P (JBool b) = Inr (if b then ''true'' else ''false'')"
| "ToString P (JNumber n) = Inr (n_render P n)"
| "ToString P (JString s) = Inr s"
| "ToString P (JArray xs) =
     (case sequence_results (map (\<lambda>x. if is_nullish x then Inr [] else ToString P x) xs) of
        Inl e \<Rightarrow> Inl e
      | Inr ts \<Rightarrow> Inr (join_with '','' ts))"
| "ToString P (JObject kvs) =
     (case map_of kvs ''toString'' of
        None \<Rightarrow> Inr ''[object Object]''
      | Some m \<Rightarrow> Inl TypeError)"

text \<open>
  \<^verbatim>\<open>Number(v)\<close>. An object is converted to a primitive first, by \<^verbatim>\<open>valueOf\<close> and
  then \<^verbatim>\<open>toString\<close>: a list goes through its string; a mapping without an own
  \<^verbatim>\<open>toString\<close> entry through \<^verbatim>\<open>[object Object]\<close>, which is no numeric literal, so
  the result is \<^verbatim>\<open>NaN\<close>; a mapping with an own \<^verbatim>\<open>toString\<close> entry raises
  \<^verbatim>\<open>TypeError\<close> as above.
\<close>

fun ToNumber :: "'n host \<Rightarrow> 'n jsval \<Rightarrow> error + 'n" where
  "ToNumber P JUndefined = Inr (n_nan P)"
| "ToNumber P JNull = Inr (n_zero P)"
| "ToNumber P (JBool b) = Inr (if b then n_one P else n_zero P)"
| "ToNumber P (JNumber n) = Inr n"
| "ToNumber P (JString s) = Inr (n_parse P s)"
| "ToNumber P (JArray xs) =
     (case ToString P (JArray xs) of
        Inl e \<Rightarrow> Inl e
      | Inr s \<Rightarrow> Inr (n_parse P s))"
| "ToNumber P (JObject kvs) =
     (case map_of kvs ''toString'' of
        None \<Rightarrow> Inr (n_nan P)
      | Some m \<Rightarrow> Inl TypeError)"

text \<open>The same tests and conversions on a reading; a host object is truthy and is
  neither \<^verbatim>\<open>null\<close> nor \<^verbatim>\<open>undefined\<close>.\<close>

fun reading_nullish :: "'n reading \<Rightarrow> bool" where
  "reading_nullish (Value v) = is_nullish v"
| "reading_nullish (Host h) = False"

fun reading_truthy :: "'n host \<Rightarrow> 'n reading \<Rightarrow> bool" where
  "reading_truthy P (Value v) = truthy P v"
| "reading_truthy P (Host h) = True"

fun reading_typeof_object :: "'n host \<Rightarrow> 'n reading \<Rightarrow> bool" where
  "reading_typeof_object P (Value v) = typeof_object v"
| "reading_typeof_object P (Host h) = h_is_object P h"

fun reading_to_number :: "'n host \<Rightarrow> 'n reading \<Rightarrow> error + 'n" where
  "reading_to_number P (Value v) = ToNumber P v"
| "reading_to_number P (Host h) = Inr (h_number P h)"

fun reading_to_string :: "'n host \<Rightarrow> 'n reading \<Rightarrow> error + string" where
  "reading_to_string P (Value v) = ToString P v"
| "reading_to_string P (Host h) = Inr (h_string P h)"

subsection \<open>JSON.stringify without indentation\<close>

definition hex_digit :: "nat \<Rightarrow> char" where
  "hex_digit d = (if d < 10 then char_of (48 + d) else char_of (87 + d))"

definition json_escape :: "char \<Rightarrow> string" where
  "json_escape c =
     (if c = CHR 0x22 then [CHR 0x5C, CHR 0x22]
      else if c = CHR 0x5C then [CHR 0x5C, CHR 0x5C]
      else if c = CHR 0x08 then [CHR 0x5C, CHR ''b'']
      else if c = CHR 0x09 then [CHR 0x5C, CHR ''t'']
      else if c = CHR 0x0A then [CHR 0x5C, CHR ''n'']
      else if c = CHR 0x0C then [CHR 0x5C, CHR ''f'']
      else if c = CHR 0x0D then [CHR 0x5C, CHR ''r'']
      else if (of_char c :: nat) < 32
        then [CHR 0x5C, CHR ''u'', CHR ''0'', CHR ''0'',
              hex_digit ((of_char c :: nat) div 16), hex_digit ((of_char c :: nat) mod 16)]
      else [c])"

definition json_quote :: "string \<Rightarrow> string" where
  "json_quote s = [CHR 0x22] @ concat (map json_escape s) @ [CHR 0x22]"

text \<open>\<open>None\<close> is the result \<^verbatim>\<open>undefined\<close>. A property whose value has no JSON text is
  skipped; such an array element is written \<^verbatim>\<open>null\<close>. An own \<^verbatim>\<open>toJSON\<close> entry of a
  mapping holds a value that cannot be called and is written like any other entry.\<close>

fun JSON_stringify :: "'n host \<Rightarrow> 'n jsval \<Rightarrow> string option" where
  "JSON_stringify P JUndefined = None"
| "JSON_stringify P JNull = Some ''null''"
| "JSON_stringify P (JBool b) = Some (if b then ''true'' else ''false'')"
| "JSON_stringify P (JNumber n) = Some (if n_finite P n then n_render P n else ''null'')"
| "JSON_stringify P (JString s) = Some (json_quote s)"
| "JSON_stringify P (JArray xs) =
     Some (''['' @ join_with '',''
             (map (\<lambda>x. case JSON_stringify P x of None \<Rightarrow> ''null'' | Some t \<Rightarrow> t) xs) @ '']'')"
| "JSON_stringify P (JObject kvs) =
     Some (''{'' @ join_with '',''
             (concat (map (\<lambda>kv. case JSON_stringify P (snd kv) of
                                   None \<Rightarrow> []
                                 | Some t \<Rightarrow> [json_quote (fst kv) @ '':'' @ t]) kvs)) @ ''}'')"

section \<open>The variable store\<close>

text \<open>
  \<^verbatim>\<open>useVariableStore\<close> is one store created at module load. Its state holds, for each
  workflow id, the mapping of that workflow's variables, and the id of the current
  workflow. Every action reads the state with \<^verbatim>\<open>get()\<close> and writes it with
  \<^verbatim>\<open>set(...)\<close>; here an action takes the state and returns the new one, and an action
  that can raise returns an error or its result. In the source file:
  \<^verbatim>\<open>getNestedValue\<close> lines 48-61, \<^verbatim>\<open>setCurrentWorkflow\<close> 67-74,
  \<^verbatim>\<open>setVariable\<close> 76-89, \<^verbatim>\<open>getVariable\<close> 91-95, \<^verbatim>\<open>getVariableByPath\<close>
  97-110, \<^verbatim>\<open>deleteVariable\<close> 112-125, \<^verbatim>\<open>clearVariables\<close> 127-137,
  \<^verbatim>\<open>getAllVariables\<close> 139-143, the numeric mutators 163-199,
  \<^verbatim>\<open>appendToVariable\<close> 201-205, \<^verbatim>\<open>interpolate\<close> 212-229 and
  \<^verbatim>\<open>SYSTEM_VARIABLES\<close> 310-315.

  The field \<open>variables\<close> holds the own entries of the two levels of plain objects. Both
  levels are built by spreads and computed keys only, so every key written, also
  \<^verbatim>\<open>__proto__\<close>, is an own entry.
\<close>

record 'n VariableState =
  variables :: "string \<rightharpoonup> (string \<rightharpoonup> 'n jsval)"
  currentWorkflowId :: "string option"

definition initial_state :: "'n VariableState" where
  "initial_state = \<lparr> variables = Map.empty, currentWorkflowId = None \<rparr>"

text \<open>The guard \<^verbatim>\<open>if (!currentWorkflowId) return\<close> passes for a non-empty id only:
  \<^verbatim>\<open>null\<close> and the empty string are both falsy.\<close>

definition selected :: "'n VariableState \<Rightarrow> string option" where
  "selected st =
     (case currentWorkflowId st of
        None \<Rightarrow> None
      | Some w \<Rightarrow> if w = [] then None else Some w)"

text \<open>
  \<^verbatim>\<open>variables[w]?.[name]\<close>. When \<open>w\<close> has a mapping, the read yields the own entry
  \<open>name\<close> of the mapping or, failing that, what the mapping inherits. When \<open>w\<close> has no
  mapping but is a property name of \<^verbatim>\<open>Object.prototype\<close>, \<^verbatim>\<open>variables[w]\<close> is
  that inherited member and the read is a read on a host object. Otherwise
  \<^verbatim>\<open>variables[w]\<close> is \<^verbatim>\<open>undefined\<close> and so is the result.
\<close>

definition lookup_var :: "'n host \<Rightarrow> 'n VariableState \<Rightarrow> string \<Rightarrow> string \<Rightarrow> error + 'n reading" where
  "lookup_var P st w name =
     (case variables st w of
        Some vars \<Rightarrow>
          Inr (case vars name of None \<Rightarrow> inherited_object P name | Some v \<Rightarrow> Value v)
      | None \<Rightarrow>
          if w \<in> set object_prototype_names then h_member P (h_object_member P w) name
          else Inr (Value JUndefined))"

text \<open>The spread \<^verbatim>\<open>{...variables[w]}\<close> copies the own enumerable entries: those of the
  mapping of \<open>w\<close>; none when \<^verbatim>\<open>variables[w]\<close> is \<^verbatim>\<open>undefined\<close> or an inherited
  member, whose properties are not enumerable.\<close>

definition spread_vars :: "'n VariableState \<Rightarrow> string \<Rightarrow> (string \<rightharpoonup> 'n jsval)" where
  "spread_vars st w = (case variables st w of None \<Rightarrow> Map.empty | Some vars \<Rightarrow> vars)"

text \<open>The test \<^verbatim>\<open>!variables[workflowId]\<close> fails for an id with a mapping and for an id
  that names an inherited member, which is an object or a function and so truthy.\<close>

definition setCurrentWorkflow :: "'n VariableState \<Rightarrow> string \<Rightarrow> 'n VariableState" where
  "setCurrentWorkflow st workflowId =
     (let st1 = st\<lparr>currentWorkflowId := Some workflowId\<rparr>
      in (case variables st1 workflowId of
            Some vars \<Rightarrow> st1
          | None \<Rightarrow>
              if workflowId \<in> set object_prototype_names then st1
              else st1\<lparr>variables := (variables st1)(workflowId \<mapsto> Map.empty)\<rparr>))"

definition setVariable :: "'n VariableState \<Rightarrow> string \<Rightarrow> 'n jsval \<Rightarrow> 'n VariableState" where
  "setVariable st name val =
     (case selected st of
        None \<Rightarrow> st
      | Some w \<Rightarrow> st\<lparr>variables := (variables st)(w \<mapsto> (spread_vars st w)(name \<mapsto> val))\<rparr>)"

definition getVariable :: "'n host \<Rightarrow> 'n VariableState \<Rightarrow> string \<Rightarrow> error + 'n reading" where
  "getVariable P st name =
     (case selected st of
        None \<Rightarrow> Inr (Value JUndefined)
      | Some w \<Rightarrow> lookup_var P st w name)"

text \<open>
  \<^verbatim>\<open>current[key]\<close> on a reading that passed the \<^verbatim>\<open>typeof\<close> test. A mapping yields
  its own entry, a list its element at a position below its length or its length; failing
  that, each yields what it inherits. A host object is read through the host. The loop
  never reads a property of any other value.
\<close>

fun get_property :: "'n host \<Rightarrow> 'n reading \<Rightarrow> string \<Rightarrow> error + 'n reading" where
  "get_property P (Value (JObject kvs)) key =
     Inr (case map_of kvs key of None \<Rightarrow> inherited_object P key | Some v \<Rightarrow> Value v)"
| "get_property P (Value (JArray xs)) key =
     Inr (case array_index key of
            Some i \<Rightarrow> if i < length xs then Value (xs ! i) else inherited_array P key
          | None \<Rightarrow>
              if key = ''length'' then Value (JNumber (n_of_nat P (length xs)))
              else inherited_array P key)"
| "get_property P (Host h) key = h_member P h key"
| "get_property P (Value v) key = Inr (Value JUndefined)"

text \<open>The \<^verbatim>\<open>for (const key of keys)\<close> loop of \<^verbatim>\<open>getNestedValue\<close>.\<close>

fun getNestedValue_loop :: "'n host \<Rightarrow> 'n reading \<Rightarrow> string list \<Rightarrow> error + 'n reading" where
  "getNestedValue_loop P current [] = Inr current"
| "getNestedValue_loop P current (key # keys) =
     (if reading_nullish current then Inr (Value JUndefined)
      else if \<not> reading_typeof_object P current then Inr (Value JUndefined)
      else (case get_property P current key of
              Inl e \<Rightarrow> Inl e
            | Inr next \<Rightarrow> getNestedValue_loop P next keys))"

definition getNestedValue :: "'n host \<Rightarrow> 'n reading \<Rightarrow> string \<Rightarrow> error + 'n reading" where
  "getNestedValue P obj path =
     (if \<not> reading_truthy P obj \<or> \<not> reading_typeof_object P obj then Inr (Value JUndefined)
      else getNestedValue_loop P obj (split_on CHR ''.'' path))"

text \<open>The destructuring \<^verbatim>\<open>const [varName, ...rest] = path.split('.')\<close> of an empty array
  would bind \<^verbatim>\<open>varName\<close> to \<^verbatim>\<open>undefined\<close>, which as a key reads \<^verbatim>\<open>"undefined"\<close>;
  \<^verbatim>\<open>split\<close> never returns the empty array.\<close>

definition getVariableByPath :: "'n host \<Rightarrow> 'n VariableState \<Rightarrow> string \<Rightarrow> error + 'n reading" where
  "getVariableByPath P st path =
     (case selected st of
        None \<Rightarrow> Inr (Value JUndefined)
      | Some w \<Rightarrow>
          if CHR ''.'' \<in> set path then
            (case split_on CHR ''.'' path of
               [] \<Rightarrow> lookup_var P st w ''undefined''
             | varName # rest \<Rightarrow>
                 (case lookup_var P st w varName of
                    Inl e \<Rightarrow> Inl e
                  | Inr variable \<Rightarrow>
                      if length rest = 0 then Inr variable
                      else getNestedValue P variable (join_with ''.'' rest)))
          else lookup_var P st w path)"

definition deleteVariable :: "'n VariableState \<Rightarrow> string \<Rightarrow> 'n VariableState" where
  "deleteVariable st name =
     (case selected st of
        None \<Rightarrow> st
      | Some w \<Rightarrow> st\<lparr>variables := (variables st)(w \<mapsto> (spread_vars st w)(name := None))\<rparr>)"

definition clearVariables :: "'n VariableState \<Rightarrow> 'n VariableState" where
  "clearVariables st =
     (case selected st of
        None \<Rightarrow> st
      | Some w \<Rightarrow> st\<lparr>variables := (variables st)(w \<mapsto> Map.empty)\<rparr>)"

text \<open>\<^verbatim>\<open>variables[currentWorkflowId] || {}\<close>: the mapping of the current workflow, the
  inherited member its id names, or the empty mapping.\<close>

datatype 'n all_variables = Variables "string \<rightharpoonup> 'n jsval" | HostObject hostref

definition getAllVariables :: "'n host \<Rightarrow> 'n VariableState \<Rightarrow> 'n all_variables" where
  "getAllVariables P st =
     (case selected st of
        None \<Rightarrow> Variables Map.empty
      | Some w \<Rightarrow>
          (case variables st w of
             Some vars \<Rightarrow> Variables vars
           | None \<Rightarrow>
               if w \<in> set object_prototype_names then HostObject (h_object_member P w)
               else Variables Map.empty))"

subsection \<open>Numeric and string mutators\<close>

text \<open>\<^verbatim>\<open>Number(getVariable(name)) || 0\<close>: the read, the coercion, which can raise, and
  every falsy number (\<^verbatim>\<open>NaN\<close>, \<^verbatim>\<open>+0\<close>, \<^verbatim>\<open>-0\<close>) replaced by \<^verbatim>\<open>0\<close>.\<close>

definition current_number :: "'n host \<Rightarrow> 'n VariableState \<Rightarrow> string \<Rightarrow> error + 'n" where
  "current_number P st name =
     (case getVariable P st name of
        Inl e \<Rightarrow> Inl e
      | Inr r \<Rightarrow>
          (case reading_to_number P r of
             Inl e \<Rightarrow> Inl e
           | Inr n \<Rightarrow> Inr (if number_falsy P n then n_zero P else n)))"

definition addToVariable ::
  "'n host \<Rightarrow> 'n VariableState \<Rightarrow> string \<Rightarrow> 'n \<Rightarrow> error + 'n VariableState" where
  "addToVariable P st name val =
     (case current_number P st name of
        Inl e \<Rightarrow> Inl e
      | Inr current \<Rightarrow> Inr (setVariable st name (JNumber (n_plus P current val))))"

definition subtractFromVariable ::
  "'n host \<Rightarrow> 'n VariableState \<Rightarrow> string \<Rightarrow> 'n \<Rightarrow> error + 'n VariableState" where
  "subtractFromVariable P st name val =
     (case current_number P st name of
        Inl e \<Rightarrow> Inl e
      | Inr current \<Rightarrow> Inr (setVariable st name (JNumber (n_minus P current val))))"

definition multiplyVariable ::
  "'n host \<Rightarrow> 'n VariableState \<Rightarrow> string \<Rightarrow> 'n \<Rightarrow> error + 'n VariableState" where
  "multiplyVariable P st name val =
     (case current_number P st name of
        Inl e \<Rightarrow> Inl e
      | Inr current \<Rightarrow> Inr (setVariable st name (JNumber (n_times P current val))))"

text \<open>\<^verbatim>\<open>divideVariable\<close> is the one action that writes to the console; it returns the new
  state and the lines passed to \<^verbatim>\<open>console.error\<close>. The current value is read and
  coerced (line 183) before the divisor is tested (line 184). The test
  \<^verbatim>\<open>value === 0\<close> holds of both zeros.\<close>

definition divideVariable ::
  "'n host \<Rightarrow> 'n VariableState \<Rightarrow> string \<Rightarrow> 'n \<Rightarrow> error + 'n VariableState \<times> string list" where
  "divideVariable P st name val =
     (case current_number P st name of
        Inl e \<Rightarrow> Inl e
      | Inr current \<Rightarrow>
          if val = n_zero P \<or> val = n_negzero P then Inr (st, [''Division by zero''])
          else Inr (setVariable st name (JNumber (n_divide P current val)), []))"

definition incrementVariable :: "'n host \<Rightarrow> 'n VariableState \<Rightarrow> string \<Rightarrow> error + 'n VariableState" where
  "incrementVariable P st name = addToVariable P st name (n_one P)"

definition decrementVariable :: "'n host \<Rightarrow> 'n VariableState \<Rightarrow> string \<Rightarrow> error + 'n VariableState" where
  "decrementVariable P st name = subtractFromVariable P st name (n_one P)"

text \<open>\<^verbatim>\<open>String(getVariable(name) || '')\<close>.\<close>

definition appendToVariable ::
  "'n host \<Rightarrow> 'n VariableState \<Rightarrow> string \<Rightarrow> string \<Rightarrow> error + 'n VariableState" where
  "appendToVariable P st name val =
     (case getVariable P st name of
        Inl e \<Rightarrow> Inl e
      | Inr r \<Rightarrow>
          (case reading_to_string P (if reading_truthy P r then r else Value (JString [])) of
             Inl e \<Rightarrow> Inl e
           | Inr current \<Rightarrow> Inr (setVariable st name (JString (current @ val)))))"

subsection \<open>Interpolation\<close>

text \<open>
  One attempt of the pattern \<^verbatim>\<open>/\{\{([^}]+)\}\}/\<close> at the head of \<open>s\<close>: two opening
  braces, the longest run of characters other than \<^verbatim>\<open>}\<close>, which must not be empty, and
  two closing braces. A shorter run cannot match, since the character after it is not a
  closing brace. The result is the captured group and the text after the match.
\<close>

definition match_placeholder :: "string \<Rightarrow> (string \<times> string) option" where
  "match_placeholder s =
     (case s of
        c1 # c2 # t \<Rightarrow>
          if c1 = CHR ''{'' \<and> c2 = CHR ''{'' then
            (let body = takeWhile (\<lambda>c. c \<noteq> CHR ''}'') t;
                 r = dropWhile (\<lambda>c. c \<noteq> CHR ''}'') t
             in if body = [] then None
                else (case r of
                        d1 # d2 # after \<Rightarrow>
                          if d1 = CHR ''}'' \<and> d2 = CHR ''}'' then Some (body, after) else None
                      | _ \<Rightarrow> None))
          else None
      | _ \<Rightarrow> None)"

lemma match_placeholder_shorter:
  assumes "match_placeholder s = Some (body, after)"
  shows "length after < length s"
proof -
  from assms obtain t where s: "s = CHR ''{'' # CHR ''{'' # t"
    and r: "dropWhile (\<lambda>c. c \<noteq> CHR ''}'') t = CHR ''}'' # CHR ''}'' # after"
    by (auto simp: match_placeholder_def Let_def split: list.splits if_splits)
  have "length (dropWhile (\<lambda>c. c \<noteq> CHR ''}'') t) \<le> length t"
    by (rule length_dropWhile_le)
  with r s show ?thesis by simp
qed

text \<open>
  \<^verbatim>\<open>template.replace(/\{\{([^}]+)\}\}/g, f)\<close>: the scan goes left to right; at a match
  the callback receives the matched text and the group, its result is appended and the
  scan resumes after the match; elsewhere the character is copied. A callback that raises
  ends the replacement with its error.
\<close>

function replace_placeholders ::
  "(string \<Rightarrow> string \<Rightarrow> error + string) \<Rightarrow> string \<Rightarrow> error + string" where
  "replace_placeholders f s =
     (case s of
        [] \<Rightarrow> Inr []
      | c # cs \<Rightarrow>
          (case match_placeholder s of
             Some (body, after) \<Rightarrow>
               (case f (''{{'' @ body @ ''}}'') body of
                  Inl e \<Rightarrow> Inl e
                | Inr replacement \<Rightarrow>
                    (case replace_placeholders f after of
                       Inl e \<Rightarrow> Inl e
                     | Inr rest \<Rightarrow> Inr (replacement @ rest)))
           | None \<Rightarrow>
               (case replace_placeholders f cs of
                  Inl e \<Rightarrow> Inl e
                | Inr rest \<Rightarrow> Inr (c # rest))))"
  by pat_completeness auto
termination
  by (relation "measure (\<lambda>(f, s). length s)") (auto dest: match_placeholder_shorter)

text \<open>\<^verbatim>\<open>JSON.stringify(value)\<close> on a reading. The result \<^verbatim>\<open>undefined\<close>, which no list
  or mapping has, would be inserted by \<^verbatim>\<open>replace\<close> as the text \<^verbatim>\<open>undefined\<close>.\<close>

fun reading_json :: "'n host \<Rightarrow> 'n reading \<Rightarrow> string" where
  "reading_json P (Value v) = (case JSON_stringify P v of None \<Rightarrow> ''undefined'' | Some t \<Rightarrow> t)"
| "reading_json P (Host h) = (case h_json P h of None \<Rightarrow> ''undefined'' | Some t \<Rightarrow> t)"

text \<open>The callback of \<^verbatim>\<open>interpolate\<close>.\<close>

definition interpolate_callback ::
  "'n host \<Rightarrow> 'n VariableState \<Rightarrow> string \<Rightarrow> string \<Rightarrow> error + string" where
  "interpolate_callback P st match path =
     (let trimmedPath = trim path
      in (case getVariableByPath P st trimmedPath of
            Inl e \<Rightarrow> Inl e
          | Inr val \<Rightarrow>
              if reading_nullish val then Inr match
              else if reading_typeof_object P val then Inr (reading_json P val)
              else reading_to_string P val))"

definition interpolate :: "'n host \<Rightarrow> 'n VariableState \<Rightarrow> string \<Rightarrow> error + string" where
  "interpolate P st template = replace_placeholders (interpolate_callback P st) template"

text \<open>The keys of the table \<^verbatim>\<open>SYSTEM_VARIABLES\<close>. Its values are functions of the clock
  (\<^verbatim>\<open>Date.now()\<close>, \<^verbatim>\<open>new Date().toISOString()\<close>, ...); no action of the store
  refers to the table.\<close>

definition SYSTEM_VARIABLES_keys :: "string list" where
  "SYSTEM_VARIABLES_keys = [''timestamp'', ''date'', ''time'', ''datetime'']"

section \<open>A host for evaluation\<close>

text \<open>
  An instance of \<open>host\<close> for evaluating the store on concrete inputs. Its numbers are the
  integers with exact arithmetic and decimal notation, and \<^verbatim>\<open>NaN\<close>: it agrees with
  the host on integer operands of small magnitude whenever the result is an integer again;
  every other result, and every string that is not an optionally signed run of digits, is
  \<^verbatim>\<open>NaN\<close> here. The instance has one zero. Its host objects are the two prototypes and
  their members; of a built-in function it knows only that \<^verbatim>\<open>caller\<close> and
  \<^verbatim>\<open>arguments\<close> raise, every other property of a function reads as \<^verbatim>\<open>undefined\<close>
  here.
\<close>

datatype dnum = DNaN | DInt int

fun dnum_binop :: "(int \<Rightarrow> int \<Rightarrow> int) \<Rightarrow> dnum \<Rightarrow> dnum \<Rightarrow> dnum" where
  "dnum_binop f (DInt a) (DInt b) = DInt (f a b)"
| "dnum_binop f x y = DNaN"

fun dnum_divide :: "dnum \<Rightarrow> dnum \<Rightarrow> dnum" where
  "dnum_divide (DInt a) (DInt b) = (if b \<noteq> 0 \<and> b dvd a then DInt (a div b) else DNaN)"
| "dnum_divide x y = DNaN"

function nat_digits :: "nat \<Rightarrow> string" where
  "nat_digits n =
     (if n < 10 then [char_of (48 + n)]
      else nat_digits (n div 10) @ [char_of (48 + n mod 10)])"
  by pat_completeness auto
termination
  by (relation "measure (\<lambda>n. n)") auto

declare nat_digits.simps [simp del]

fun dnum_render :: "dnum \<Rightarrow> string" where
  "dnum_render DNaN = ''NaN''"
| "dnum_render (DInt i) = (if i < 0 then CHR ''-'' # nat_digits (nat (- i)) else nat_digits (nat i))"

definition dnum_digits :: "string \<Rightarrow> dnum" where
  "dnum_digits s = (if s \<noteq> [] \<and> list_all is_digit s then DInt (int (digits_value s)) else DNaN)"

definition dnum_parse :: "string \<Rightarrow> dnum" where
  "dnum_parse s =
     (case trim s of
        [] \<Rightarrow> DInt 0
      | c # cs \<Rightarrow>
          if c = CHR ''-'' then dnum_binop (\<lambda>a b. a - b) (DInt 0) (dnum_digits cs)
          else if c = CHR ''+'' then dnum_digits cs
          else dnum_digits (c # cs))"

fun dnum_finite :: "dnum \<Rightarrow> bool" where
  "dnum_finite DNaN = False"
| "dnum_finite (DInt i) = True"

text \<open>The property names of \<^verbatim>\<open>Array.prototype\<close> in ECMAScript 2015; later
  editions add to them.\<close>

definition array_prototype_names :: "string list" where
  "array_prototype_names =
     [''constructor'', ''toString'', ''toLocaleString'', ''concat'', ''copyWithin'',
      ''entries'', ''every'', ''fill'', ''filter'', ''find'', ''findIndex'', ''forEach'',
      ''includes'', ''indexOf'', ''join'', ''keys'', ''lastIndexOf'', ''map'', ''pop'',
      ''push'', ''reduce'', ''reduceRight'', ''reverse'', ''shift'', ''slice'', ''some'',
      ''sort'', ''splice'', ''unshift'', ''values'']"

definition object_prototype_ref :: hostref where
  "object_prototype_ref = HostRef ''Object.prototype''"

definition array_prototype_ref :: hostref where
  "array_prototype_ref = HostRef ''Array.prototype''"

definition std_object_member :: "string \<Rightarrow> hostref" where
  "std_object_member name =
     (if name = ''__proto__'' then object_prototype_ref
      else HostRef (''Object.prototype.'' @ name))"

definition std_array_member :: "string \<Rightarrow> hostref option" where
  "std_array_member name =
     (if name = ''__proto__'' then Some array_prototype_ref
      else if name \<in> set array_prototype_names then Some (HostRef (''Array.prototype.'' @ name))
      else if name \<in> set object_prototype_names then Some (std_object_member name)
      else None)"

definition std_member :: "hostref \<Rightarrow> string \<Rightarrow> error + dnum reading" where
  "std_member h name =
     (if h = object_prototype_ref then
        (if name = ''__proto__'' then Inr (Value JNull)
         else if name \<in> set object_prototype_names then Inr (Host (std_object_member name))
         else Inr (Value JUndefined))
      else if h = array_prototype_ref then
        (if name = ''length'' then Inr (Value (JNumber (DInt 0)))
         else if name = ''__proto__'' then Inr (Host object_prototype_ref)
         else (case std_array_member name of
                 None \<Rightarrow> Inr (Value JUndefined)
               | Some m \<Rightarrow> Inr (Host m)))
      else if name = ''caller'' \<or> name = ''arguments'' then Inl TypeError
      else Inr (Value JUndefined))"

definition std_is_object :: "hostref \<Rightarrow> bool" where
  "std_is_object h = (h = object_prototype_ref \<or> h = array_prototype_ref)"

definition std_number :: "hostref \<Rightarrow> dnum" where
  "std_number h = (if h = array_prototype_ref then DInt 0 else DNaN)"

definition std_string :: "hostref \<Rightarrow> string" where
  "std_string h =
     (if h = object_prototype_ref then ''[object Object]''
      else if h = array_prototype_ref then []
      else ''function () { [native code] }'')"

definition std_json :: "hostref \<Rightarrow> string option" where
  "std_json h =
     (if h = object_prototype_ref then Some ''{}''
      else if h = array_prototype_ref then Some ''[]''
      else None)"

definition integer_host :: "dnum host" where
  "integer_host =
     \<lparr> n_nan = DNaN, n_zero = DInt 0, n_negzero = DInt 0, n_one = DInt 1,
       n_plus = dnum_binop (\<lambda>a b. a + b), n_minus = dnum_binop (\<lambda>a b. a - b),
       n_times = dnum_binop (\<lambda>a b. a * b), n_divide = dnum_divide,
       n_of_nat = (\<lambda>n. DInt (int n)), n_finite = dnum_finite,
       n_parse = dnum_parse, n_render = dnum_render,
       h_object_member = std_object_member, h_array_member = std_array_member,
       h_member = std_member, h_is_object = std_is_object, h_number = std_number,
       h_string = std_string, h_json = std_json \<rparr>"

text \<open>A store used for evaluation: workflow \<^verbatim>\<open>wf\<close> is current and \<^verbatim>\<open>x\<close> holds 6.\<close>

definition st6 :: "dnum VariableState" where
  "st6 = setVariable (setCurrentWorkflow initial_state ''wf'') ''x'' (JNumber (DInt 6))"

text \<open>The same store with \<^verbatim>\<open>x\<close> holding \<^verbatim>\<open>null\<close>.\<close>

definition st_null :: "dnum VariableState" where
  "st_null = setVariable (setCurrentWorkflow initial_state ''wf'') ''x'' JNull"

text \<open>The same store with \<^verbatim>\<open>x\<close> holding the mapping \<^verbatim>\<open>{"toString": 1}\<close>, as
  \<^verbatim>\<open>JSON.parse\<close> returns it.\<close>

definition st_toString :: "dnum VariableState" where
  "st_toString = setVariable (setCurrentWorkflow initial_state ''wf'') ''x''
     (JObject [(''toString'', JNumber (DInt 1))])"

text \<open>A store holding a quote: a mapping with a number, a nested mapping and a list.\<close>

definition st_quote :: "dnum VariableState" where
  "st_quote = setVariable (setCurrentWorkflow initial_state ''wf'') ''quote''
     (JObject [(''ltp'', JNumber (DInt 100)),
               (''depth'', JObject [(''bid'', JNull)]),
               (''legs'', JArray [JString ''CE'', JString ''PE''])])"

section \<open>The store as the specification words it\<close>

subsection \<open>Names that reach no inherited member\<close>




subsection \<open>The value at a path\<close>


subsection \<open>The placeholders of a template\<close>

text \<open>
  The reading of \<^verbatim>\<open>interpolate\<close> as the specification words it: the template is cut
  into its placeholder occurrences (\<open>Hole\<close>, with the text between the braces) and the
  characters in between (\<open>Lit\<close>), by the same left-to-right scan as the replacement; each
  piece is then rendered on its own. A placeholder is substituted when its trimmed path
  yields something other than not-found and \<^verbatim>\<open>null\<close>: a list or mapping by its JSON
  text, a scalar by its text, a host object by the text the host gives it; otherwise it is
  rendered as it stands. The path is read by \<^verbatim>\<open>getVariableByPath\<close>; if that read
  raises, so does the rendering, and the first error ends the whole.
\<close>

datatype segment = Lit char | Hole string

function segments :: "string \<Rightarrow> segment list" where
  "segments s =
     (case s of
        [] \<Rightarrow> []
      | c # cs \<Rightarrow>
          (case match_placeholder s of
             Some (body, after) \<Rightarrow> Hole body # segments after
           | None \<Rightarrow> Lit c # segments cs))"
  by pat_completeness auto
termination
  by (relation "measure length") (auto dest: match_placeholder_shorter)

declare segments.simps [simp del]
declare replace_placeholders.simps [simp del]

fun segment_text :: "segment \<Rightarrow> string" where
  "segment_text (Lit c) = [c]"
| "segment_text (Hole body) = ''{{'' @ body @ ''}}''"

text \<open>The text of a scalar.\<close>

fun scalar_text :: "'n host \<Rightarrow> 'n jsval \<Rightarrow> string" where
  "scalar_text P (JBool b) = (if b then ''true'' else ''false'')"
| "scalar_text P (JNumber n) = n_render P n"
| "scalar_text P (JString s) = s"
| "scalar_text P v = ''undefined''"

definition json_text :: "'n host \<Rightarrow> 'n jsval \<Rightarrow> string" where
  "json_text P v = (case JSON_stringify P v of None \<Rightarrow> ''undefined'' | Some t \<Rightarrow> t)"

definition host_text :: "'n host \<Rightarrow> hostref \<Rightarrow> string" where
  "host_text P h =
     (if h_is_object P h then (case h_json P h of None \<Rightarrow> ''undefined'' | Some t \<Rightarrow> t)
      else h_string P h)"

fun value_text :: "'n host \<Rightarrow> 'n reading \<Rightarrow> string option" where
  "value_text P (Value JUndefined) = None"
| "value_text P (Value JNull) = None"
| "value_text P (Value (JArray xs)) = Some (json_text P (JArray xs))"
| "value_text P (Value (JObject kvs)) = Some (json_text P (JObject kvs))"
| "value_text P (Value v) = Some (scalar_text P v)"
| "value_text P (Host h) = Some (host_text P h)"

fun render_segment :: "'n host \<Rightarrow> 'n VariableState \<Rightarrow> segment \<Rightarrow> error + string" where
  "render_segment P st (Lit c) = Inr [c]"
| "render_segment P st (Hole body) =
     (case getVariableByPath P st (trim body) of
        Inl e \<Rightarrow> Inl e
      | Inr r \<Rightarrow>
          Inr (case value_text P r of
                 None \<Rightarrow> segment_text (Hole body)
               | Some t \<Rightarrow> t))"

definition render_all :: "(error + string) list \<Rightarrow> error + string" where
  "render_all rs = (case sequence_results rs of Inl e \<Rightarrow> Inl e | Inr ts \<Rightarrow> Inr (concat ts))"

section \<open>Option resolver and split orders\<close>

text \<open>
  The resolver and the orchestrator run behind the brokerage API; the sources hold only the
  client library's README with documented requests and responses
  (\<^verbatim>\<open>optionsOrder\<close>, \<^verbatim>\<open>optionsMultiOrder\<close>, \<^verbatim>\<open>splitOrder\<close>). Both are
  therefore modelled from the specification, and the documented responses are checked
  against the model.
\<close>

text \<open>Modelled from the spec: the option type and the offset token of an
  \<^verbatim>\<open>OptionLegSpec\<close> (\<^verbatim>\<open>ATM\<close>, \<^verbatim>\<open>ITM<k>\<close>, \<^verbatim>\<open>OTM<k>\<close>); the resolver's code
  is missing.\<close>

datatype option_type = CE | PE

datatype offset = ATM | ITM nat | OTM nat

text \<open>Modelled from the spec: the number of strike steps an offset walks from the
  at-the-money strike; the resolver's code is missing.\<close>

fun offset_steps :: "offset \<Rightarrow> nat" where
  "offset_steps ATM = 0"
| "offset_steps (ITM k) = k"
| "offset_steps (OTM k) = k"

text \<open>Modelled from the spec: the direction of the walk; the resolver's code is missing.
  For \<^verbatim>\<open>CE\<close>, in-the-money moves strikes downward and out-of-the-money upward; for
  \<^verbatim>\<open>PE\<close> the directions invert.\<close>

fun call_direction :: "offset \<Rightarrow> int" where
  "call_direction ATM = 0"
| "call_direction (ITM k) = - 1"
| "call_direction (OTM k) = 1"

fun direction :: "option_type \<Rightarrow> offset \<Rightarrow> int" where
  "direction CE off = call_direction off"
| "direction PE off = - call_direction off"

text \<open>Modelled from the spec: walking \<open>k\<close> strike steps of size \<open>step\<close> from a strike,
  one step at a time; the resolver's code is missing.\<close>

fun walk_strikes :: "int \<Rightarrow> int \<Rightarrow> int \<Rightarrow> nat \<Rightarrow> int" where
  "walk_strikes strike step dir 0 = strike"
| "walk_strikes strike step dir (Suc k) = walk_strikes (strike + dir * step) step dir k"

text \<open>Modelled from the spec: the strike an offset resolves to, given the at-the-money
  strike and the strike step; the resolver's code (the server side of
  \<^verbatim>\<open>optionsOrder\<close>) is missing.\<close>

definition resolve_strike :: "int \<Rightarrow> int \<Rightarrow> option_type \<Rightarrow> offset \<Rightarrow> int" where
  "resolve_strike atm step ty off = walk_strikes atm step (direction ty off) (offset_steps off)"

text \<open>Modelled from the spec: the number of chunks of a split order,
  \<^verbatim>\<open>ceil(totalQuantity / splitSize)\<close>; the orchestrator's code (the server side of
  \<^verbatim>\<open>splitOrder\<close>) is missing.\<close>

definition chunk_count :: "nat \<Rightarrow> nat \<Rightarrow> nat" where
  "chunk_count totalQuantity splitSize = (totalQuantity + splitSize - 1) div splitSize"

text \<open>Modelled from the spec: the quantity of chunk \<open>i\<close>, counted from 1: the split size,
  except for the final chunk, which takes what remains; the orchestrator's code is
  missing.\<close>

definition chunk_quantity :: "nat \<Rightarrow> nat \<Rightarrow> nat \<Rightarrow> nat" where
  "chunk_quantity totalQuantity splitSize i =
     (if i < chunk_count totalQuantity splitSize then splitSize
      else totalQuantity - (chunk_count totalQuantity splitSize - 1) * splitSize)"

text \<open>Modelled from the spec: the chunks of a split order in the order of submission,
  each with its sequence number; the orchestrator's code is missing.\<close>

definition split_chunks :: "nat \<Rightarrow> nat \<Rightarrow> (nat \<times> nat) list" where
  "split_chunks totalQuantity splitSize =
     map (\<lambda>i. (i, chunk_quantity totalQuantity splitSize i))
       [1 ..< Suc (chunk_count totalQuantity splitSize)]"

section \<open>Basic facts about the store\<close>

lemma selected_setCurrentWorkflow:
  "w \<noteq> [] \<Longrightarrow> selected (setCurrentWorkflow st w) = Some w"
  by (simp add: setCurrentWorkflow_def selected_def Let_def split: option.splits)

lemma selected_setVariable: "selected (setVariable st name v) = selected st"
  by (simp add: setVariable_def selected_def split: option.splits)

lemma variables_setVariable:
  "selected st = Some w \<Longrightarrow>
     variables (setVariable st name v) w = Some ((spread_vars st w)(name \<mapsto> v))"
  by (simp add: setVariable_def)

lemma getVariable_own:
  assumes "selected st = Some w" and "variables st w = Some vars"
  shows "getVariable P st name =
    Inr (case vars name of None \<Rightarrow> inherited_object P name | Some v \<Rightarrow> Value v)"
  using assms by (simp add: getVariable_def lookup_var_def)

lemma get_after_set:
  assumes "selected st = Some w"
  shows "getVariable P (setVariable st name v) name = Inr (Value v)"
proof -
  from assms have s: "selected (setVariable st name v) = Some w"
    by (simp add: selected_setVariable)
  show ?thesis
    by (simp add: getVariable_own [OF s variables_setVariable [OF assms]])
qed


lemma wf_plain: "''wf'' \<notin> set object_prototype_names"
  by (simp add: object_prototype_names_def)

lemma x_plain: "''x'' \<notin> set object_prototype_names"
  by (simp add: object_prototype_names_def)

lemma selected_fresh: "selected (setCurrentWorkflow initial_state ''wf'') = Some ''wf''"
  by (simp add: selected_setCurrentWorkflow)

lemma selected_st6: "selected st6 = Some ''wf''"
  by (simp add: st6_def selected_setVariable selected_setCurrentWorkflow)

lemma getVariable_st6: "getVariable P st6 ''x'' = Inr (Value (JNumber (DInt 6)))"
  by (simp add: st6_def get_after_set selected_setCurrentWorkflow)

lemma selected_st_null: "selected st_null = Some ''wf''"
  by (simp add: st_null_def selected_setVariable selected_setCurrentWorkflow)

lemma getVariable_st_null: "getVariable P st_null ''x'' = Inr (Value JNull)"
  by (simp add: st_null_def get_after_set selected_setCurrentWorkflow)

lemma selected_st_toString: "selected st_toString = Some ''wf''"
  by (simp add: st_toString_def selected_setVariable selected_setCurrentWorkflow)

lemma getVariable_st_toString:
  "getVariable P st_toString ''x'' = Inr (Value (JObject [(''toString'', JNumber (DInt 1))]))"
  by (simp add: st_toString_def get_after_set selected_setCurrentWorkflow)

lemma selected_st_quote: "selected st_quote = Some ''wf''"
  by (simp add: st_quote_def selected_setVariable selected_setCurrentWorkflow)

lemma getVariable_st_quote:
  "getVariable P st_quote ''quote'' =
     Inr (Value (JObject [(''ltp'', JNumber (DInt 100)),
              (''depth'', JObject [(''bid'', JNull)]),
              (''legs'', JArray [JString ''CE'', JString ''PE''])]))"
  by (simp add: st_quote_def get_after_set selected_setCurrentWorkflow)

lemma current_number_st6: "current_number integer_host st6 ''x'' = Inr (DInt 6)"
  by (simp add: current_number_def getVariable_st6 number_falsy_def integer_host_def)

section \<open>No workflow selected\<close>

text \<open>
  Claim C10. While \<^verbatim>\<open>currentWorkflowId\<close> is \<^verbatim>\<open>null\<close>, every mutator of the store
  (\<^verbatim>\<open>setVariable\<close>, \<^verbatim>\<open>deleteVariable\<close>, \<^verbatim>\<open>clearVariables\<close>, the six numeric
  mutators and \<^verbatim>\<open>appendToVariable\<close>) returns the state it was given, without raising,
  and every reader returns the not-found result: \<^verbatim>\<open>getVariable\<close> and
  \<^verbatim>\<open>getVariableByPath\<close> return \<^verbatim>\<open>undefined\<close>, \<^verbatim>\<open>getAllVariables\<close> the empty
  mapping. \<^verbatim>\<open>divideVariable\<close> with a zero divisor still writes its console line.
\<close>

theorem no_workflow_frame:
  assumes "currentWorkflowId st = None"
  shows "setVariable st name v = st \<and> deleteVariable st name = st \<and> clearVariables st = st
     \<and> addToVariable P st name x = Inr st \<and> subtractFromVariable P st name x = Inr st
     \<and> multiplyVariable P st name x = Inr st
     \<and> divideVariable P st name x =
         Inr (st, if x = n_zero P \<or> x = n_negzero P then [''Division by zero''] else [])
     \<and> incrementVariable P st name = Inr st \<and> decrementVariable P st name = Inr st
     \<and> appendToVariable P st name s = Inr st
     \<and> getVariable P st name = Inr (Value JUndefined)
     \<and> getVariableByPath P st path = Inr (Value JUndefined)
     \<and> getAllVariables P st = Variables Map.empty"
proof -
  from assms have sel: "selected st = None"
    by (simp add: selected_def)
  have set: "\<And>n u. setVariable st n u = st"
    using sel by (simp add: setVariable_def)
  have get: "\<And>n. getVariable P st n = Inr (Value JUndefined)"
    using sel by (simp add: getVariable_def)
  have num: "\<And>n. \<exists>c. current_number P st n = Inr c"
    by (simp add: current_number_def get)
  show ?thesis
    using sel
    by (simp add: set get current_number_def deleteVariable_def clearVariables_def
        addToVariable_def subtractFromVariable_def multiplyVariable_def divideVariable_def
        incrementVariable_def decrementVariable_def appendToVariable_def
        getVariableByPath_def getAllVariables_def)
qed

theorem no_workflow_frame_witness:
  "setVariable (initial_state :: dnum VariableState) ''x'' (JNumber (DInt 1)) = initial_state
   \<and> deleteVariable (initial_state :: dnum VariableState) ''x'' = initial_state
   \<and> clearVariables (initial_state :: dnum VariableState) = initial_state
   \<and> addToVariable integer_host initial_state ''x'' (DInt 2) = Inr initial_state
   \<and> subtractFromVariable integer_host initial_state ''x'' (DInt 2) = Inr initial_state
   \<and> multiplyVariable integer_host initial_state ''x'' (DInt 2) = Inr initial_state
   \<and> divideVariable integer_host initial_state ''x'' (DInt 2) = Inr (initial_state, [])
   \<and> incrementVariable integer_host initial_state ''x'' = Inr initial_state
   \<and> decrementVariable integer_host initial_state ''x'' = Inr initial_state
   \<and> appendToVariable integer_host initial_state ''x'' ''s'' = Inr initial_state
   \<and> getVariable integer_host initial_state ''x'' = Inr (Value JUndefined)
   \<and> getVariableByPath integer_host initial_state ''x.y'' = Inr (Value JUndefined)
   \<and> getAllVariables integer_host initial_state = Variables Map.empty"
proof -
  have n: "currentWorkflowId (initial_state :: dnum VariableState) = None"
    by (simp add: initial_state_def)
  have z: "\<not> (DInt 2 = n_zero integer_host \<or> DInt 2 = n_negzero integer_host)"
    by (simp add: integer_host_def)
  from no_workflow_frame [OF n, of "''x''" "JNumber (DInt 1)" integer_host "DInt 2"
      "''s''" "''x.y''"] z
  show ?thesis by simp
qed

section \<open>One store for all runs\<close>

text \<open>
  A later run of the same workflow reads what an earlier run wrote: selecting the workflow
  again keeps its variables.
\<close>

theorem same_workflow_runs_share_counterexample:
  "getVariable integer_host
     (setCurrentWorkflow
        (setVariable (setCurrentWorkflow (initial_state :: dnum VariableState) ''wf'')
           ''x'' (JString ''first run''))
        ''wf'')
     ''x'' = Inr (Value (JString ''first run''))"
  by code_simp

lemma variables_setCurrentWorkflow_other:
  "w' \<noteq> w \<Longrightarrow> variables (setCurrentWorkflow st w) w' = variables st w'"
  by (simp add: setCurrentWorkflow_def Let_def split: option.splits)

lemma variables_setCurrentWorkflow_same:
  "variables (setCurrentWorkflow st w) w =
     (case variables st w of
        Some vars \<Rightarrow> Some vars
      | None \<Rightarrow> if w \<in> set object_prototype_names then None else Some Map.empty)"
  by (simp add: setCurrentWorkflow_def Let_def split: option.splits)

lemma getVariable_setCurrentWorkflow:
  assumes "w \<noteq> []" and "variables st' w = variables st w"
  shows "getVariable P (setCurrentWorkflow st' w) n = getVariable P (setCurrentWorkflow st w) n"
proof -
  have "variables (setCurrentWorkflow st' w) w = variables (setCurrentWorkflow st w) w"
    by (simp only: variables_setCurrentWorkflow_same assms(2))
  then have "lookup_var P (setCurrentWorkflow st' w) w n = lookup_var P (setCurrentWorkflow st w) w n"
    by (simp only: lookup_var_def)
  with assms(1) show ?thesis
    by (simp add: getVariable_def selected_setCurrentWorkflow)
qed

text \<open>
  Claim C7, amended. The store is one state for the whole process, holding one mapping of
  variables per workflow id. A variable set, deleted or cleared while workflow \<open>w1\<close> is
  current is not observable once a different workflow \<open>w2\<close> is made current: every
  variable of \<open>w2\<close> reads as it did before. Runs of the same workflow share one mapping:
  selecting the workflow again keeps what was written.
\<close>

theorem workflow_keyed_store:
  assumes "w1 \<noteq> []" and "w2 \<noteq> []" and "w1 \<noteq> w2"
  shows "getVariable P (setCurrentWorkflow (setVariable (setCurrentWorkflow st w1) name v) w2) name'
           = getVariable P (setCurrentWorkflow st w2) name'
       \<and> getVariable P (setCurrentWorkflow (deleteVariable (setCurrentWorkflow st w1) name) w2) name'
           = getVariable P (setCurrentWorkflow st w2) name'
       \<and> getVariable P (setCurrentWorkflow (clearVariables (setCurrentWorkflow st w1)) w2) name'
           = getVariable P (setCurrentWorkflow st w2) name'
       \<and> getVariable P (setCurrentWorkflow (setVariable (setCurrentWorkflow st w1) name v) w1) name
           = Inr (Value v)"
proof -
  have s1: "selected (setCurrentWorkflow st w1) = Some w1"
    using assms(1) by (rule selected_setCurrentWorkflow)
  have a: "variables (setVariable (setCurrentWorkflow st w1) name v) w2 = variables st w2"
    using assms(3) s1 by (simp add: setVariable_def variables_setCurrentWorkflow_other)
  have b: "variables (deleteVariable (setCurrentWorkflow st w1) name) w2 = variables st w2"
    using assms(3) s1 by (simp add: deleteVariable_def variables_setCurrentWorkflow_other)
  have c: "variables (clearVariables (setCurrentWorkflow st w1)) w2 = variables st w2"
    using assms(3) s1 by (simp add: clearVariables_def variables_setCurrentWorkflow_other)
  have d: "getVariable P (setCurrentWorkflow (setVariable (setCurrentWorkflow st w1) name v) w1) name
           = Inr (Value v)"
  proof -
    let ?st = "setVariable (setCurrentWorkflow st w1) name v"
    have v: "variables ?st w1 = Some ((spread_vars (setCurrentWorkflow st w1) w1)(name \<mapsto> v))"
      by (rule variables_setVariable [OF s1])
    then have "variables (setCurrentWorkflow ?st w1) w1
        = Some ((spread_vars (setCurrentWorkflow st w1) w1)(name \<mapsto> v))"
      by (simp add: variables_setCurrentWorkflow_same)
    with assms(1) show ?thesis
      by (simp add: getVariable_own [OF selected_setCurrentWorkflow])
  qed
  from getVariable_setCurrentWorkflow [OF assms(2) a] getVariable_setCurrentWorkflow [OF assms(2) b]
    getVariable_setCurrentWorkflow [OF assms(2) c] d
  show ?thesis by simp
qed

theorem workflow_keyed_store_witness:
  "getVariable integer_host
      (setCurrentWorkflow (setVariable (setCurrentWorkflow st6 ''other'') ''x'' JNull) ''wf'') ''x''
     = Inr (Value (JNumber (DInt 6)))
   \<and> getVariable integer_host
      (setCurrentWorkflow (clearVariables (setCurrentWorkflow st6 ''other'')) ''wf'') ''x''
     = Inr (Value (JNumber (DInt 6)))
   \<and> getVariable integer_host
      (setCurrentWorkflow (setVariable (setCurrentWorkflow st6 ''other'') ''x'' JNull) ''other'') ''x''
     = Inr (Value JNull)"
proof -
  have g: "getVariable integer_host (setCurrentWorkflow st6 ''wf'') ''x'' = Inr (Value (JNumber (DInt 6)))"
    by code_simp
  from workflow_keyed_store [of "''other''" "''wf''" integer_host st6 "''x''" JNull "''x''"] g
  show ?thesis by simp
qed

section \<open>Coercions\<close>

text \<open>
  \<^verbatim>\<open>JSON.parse\<close> of \<^verbatim>\<open>{"toString": 1}\<close> is a mapping whose own \<^verbatim>\<open>toString\<close>
  entry hides the inherited method. \<^verbatim>\<open>Number\<close> and \<^verbatim>\<open>String\<close> of such a mapping
  raise, and so does every action that coerces the current value of a variable holding it.
\<close>

lemma ToNumber_own_toString:
  "map_of kvs ''toString'' = Some m \<Longrightarrow> ToNumber P (JObject kvs) = Inl TypeError"
  by simp

lemma ToString_own_toString:
  "map_of kvs ''toString'' = Some m \<Longrightarrow> ToString P (JObject kvs) = Inl TypeError"
  by simp

lemma current_number_raises:
  assumes "getVariable P st name = Inr (Value (JObject kvs))"
    and "map_of kvs ''toString'' = Some m"
  shows "current_number P st name = Inl TypeError"
  using assms by (simp add: current_number_def)

lemma current_number_st_toString: "current_number P st_toString ''x'' = Inl TypeError"
  by (rule current_number_raises [OF getVariable_st_toString]) simp

text \<open>The coercions on the host used for evaluation.\<close>

lemma coercion_examples:
  "ToNumber integer_host (JString ''42'') = Inr (DInt 42)
   \<and> ToNumber integer_host (JString ''abc'') = Inr DNaN
   \<and> ToNumber integer_host (JString []) = Inr (DInt 0)
   \<and> ToNumber integer_host (JBool True) = Inr (DInt 1)
   \<and> ToNumber integer_host (JBool False) = Inr (DInt 0)
   \<and> ToNumber integer_host JNull = Inr (DInt 0)
   \<and> ToNumber integer_host JUndefined = Inr DNaN
   \<and> ToNumber integer_host (JArray []) = Inr (DInt 0)
   \<and> ToNumber integer_host (JArray [JNumber (DInt 5)]) = Inr (DInt 5)
   \<and> ToNumber integer_host (JArray [JNumber (DInt 5), JNumber (DInt 6)]) = Inr DNaN
   \<and> ToNumber integer_host (JObject []) = Inr DNaN
   \<and> ToNumber integer_host (JArray [JObject [(''toString'', JNumber (DInt 1))]]) = Inl TypeError
   \<and> ToString integer_host (JNumber (DInt 6)) = Inr ''6''
   \<and> ToString integer_host (JNumber (DInt (- 12))) = Inr ''-12''
   \<and> ToString integer_host (JBool True) = Inr ''true''
   \<and> ToString integer_host JNull = Inr ''null''
   \<and> ToString integer_host JUndefined = Inr ''undefined''
   \<and> ToString integer_host (JArray [JNumber (DInt 1), JNull, JString ''a'']) = Inr ''1,,a''
   \<and> ToString integer_host (JObject [(''a'', JNull)]) = Inr ''[object Object]''"
  by code_simp

section \<open>Division\<close>

text \<open>
  Claim C2 asks that a division by zero only logs and leaves the variable as it was,
  whatever the variable holds, and never raises. \<^verbatim>\<open>divideVariable\<close> evaluates
  \<^verbatim>\<open>Number(getVariable(name)) || 0\<close> before it tests the divisor: with \<^verbatim>\<open>x\<close> holding
  the mapping \<^verbatim>\<open>{"toString": 1}\<close>, the division of \<^verbatim>\<open>x\<close> by zero raises
  \<^verbatim>\<open>TypeError\<close>.
\<close>

theorem divideVariable_by_zero_raises:
  "divideVariable integer_host st_toString ''x'' (DInt 0) = Inl TypeError
   \<and> DInt 0 = n_zero integer_host"
  by (simp add: divideVariable_def current_number_st_toString integer_host_def)

text \<open>Where the coercion of the current value returns, the action does what the claim
  says: a zero divisor gives the unchanged state and the console line, any other divisor
  stores the quotient.\<close>

lemma divideVariable_cases:
  assumes "selected st = Some w" and "current_number P st name = Inr c"
  shows "(d = n_zero P \<or> d = n_negzero P \<longrightarrow>
            divideVariable P st name d = Inr (st, [''Division by zero'']))
       \<and> (d \<noteq> n_zero P \<and> d \<noteq> n_negzero P \<longrightarrow>
            divideVariable P st name d =
              Inr (setVariable st name (JNumber (n_divide P c d)), [])
            \<and> getVariable P (setVariable st name (JNumber (n_divide P c d))) name =
                Inr (Value (JNumber (n_divide P c d))))"
  using assms by (auto simp: divideVariable_def get_after_set)

section \<open>Numeric mutators\<close>

text \<open>
  Claim C5 asks that a numeric mutator reads a non-numeric current value, a mapping among
  them, as 0 and applies its operation. Each of the six mutators starts with
  \<^verbatim>\<open>Number(getVariable(name))\<close>: with \<^verbatim>\<open>x\<close> holding the mapping
  \<^verbatim>\<open>{"toString": 1}\<close> each of them raises \<^verbatim>\<open>TypeError\<close> and stores nothing.
\<close>

theorem numeric_mutators_raise:
  "addToVariable integer_host st_toString ''x'' (DInt 1) = Inl TypeError
   \<and> subtractFromVariable integer_host st_toString ''x'' (DInt 1) = Inl TypeError
   \<and> multiplyVariable integer_host st_toString ''x'' (DInt 2) = Inl TypeError
   \<and> divideVariable integer_host st_toString ''x'' (DInt 2) = Inl TypeError
   \<and> incrementVariable integer_host st_toString ''x'' = Inl TypeError
   \<and> decrementVariable integer_host st_toString ''x'' = Inl TypeError"
  by (simp add: addToVariable_def subtractFromVariable_def multiplyVariable_def
      divideVariable_def incrementVariable_def decrementVariable_def
      current_number_st_toString)

text \<open>Where the coercion returns, the operand is \<^verbatim>\<open>Number(current) || 0\<close> and the
  result of the operation is stored.\<close>

lemma numeric_mutators_apply:
  assumes "current_number P st name = Inr c"
  shows "addToVariable P st name x = Inr (setVariable st name (JNumber (n_plus P c x)))
     \<and> subtractFromVariable P st name x = Inr (setVariable st name (JNumber (n_minus P c x)))
     \<and> multiplyVariable P st name x = Inr (setVariable st name (JNumber (n_times P c x)))
     \<and> incrementVariable P st name = Inr (setVariable st name (JNumber (n_plus P c (n_one P))))
     \<and> decrementVariable P st name = Inr (setVariable st name (JNumber (n_minus P c (n_one P))))"
  using assms
  by (simp add: addToVariable_def subtractFromVariable_def multiplyVariable_def
      incrementVariable_def decrementVariable_def)

lemma current_number_coerces:
  assumes "getVariable P st name = Inr r" and "reading_to_number P r = Inr n"
  shows "current_number P st name = Inr (if number_falsy P n then n_zero P else n)"
  using assms by (simp add: current_number_def)

text \<open>The operand and the result at some stored values: a string that parses, one that
  does not, a boolean, a mapping, an absent variable, and an absent variable named like an
  inherited member.\<close>

lemma numeric_mutators_examples:
  "current_number integer_host (setVariable st6 ''x'' (JString ''42'')) ''x'' = Inr (DInt 42)
   \<and> current_number integer_host (setVariable st6 ''x'' (JString ''abc'')) ''x'' = Inr (DInt 0)
   \<and> current_number integer_host (setVariable st6 ''x'' (JBool True)) ''x'' = Inr (DInt 1)
   \<and> current_number integer_host (setVariable st6 ''x'' (JObject [])) ''x'' = Inr (DInt 0)
   \<and> current_number integer_host st6 ''absent'' = Inr (DInt 0)
   \<and> current_number integer_host st6 ''toString'' = Inr (DInt 0)
   \<and> incrementVariable integer_host (setVariable st6 ''x'' (JString ''42'')) ''x'' =
       Inr (setVariable (setVariable st6 ''x'' (JString ''42'')) ''x'' (JNumber (DInt 43)))
   \<and> divideVariable integer_host st6 ''x'' (DInt 3) =
       Inr (setVariable st6 ''x'' (JNumber (DInt 2)), [])
   \<and> divideVariable integer_host st6 ''x'' (DInt 0) = Inr (st6, [''Division by zero''])"
proof -
  have c: "current_number integer_host (setVariable st6 ''x'' (JString ''42'')) ''x'' = Inr (DInt 42)"
    "current_number integer_host (setVariable st6 ''x'' (JString ''abc'')) ''x'' = Inr (DInt 0)"
    "current_number integer_host (setVariable st6 ''x'' (JBool True)) ''x'' = Inr (DInt 1)"
    "current_number integer_host (setVariable st6 ''x'' (JObject [])) ''x'' = Inr (DInt 0)"
    "current_number integer_host st6 ''absent'' = Inr (DInt 0)"
    "current_number integer_host st6 ''toString'' = Inr (DInt 0)"
    by code_simp+
  have a: "n_plus integer_host (DInt 42) (n_one integer_host) = DInt 43"
    "n_divide integer_host (DInt 6) (DInt 3) = DInt 2"
    "DInt 3 \<noteq> n_zero integer_host" "DInt 3 \<noteq> n_negzero integer_host"
    "DInt 0 = n_zero integer_host"
    by code_simp+
  show ?thesis
    using a(3,4,5)
    by (simp add: c incrementVariable_def addToVariable_def divideVariable_def
        current_number_st6 a(1,2))
qed

section \<open>Appending text\<close>

text \<open>
  With \<^verbatim>\<open>x\<close> holding \<^verbatim>\<open>null\<close>, \<^verbatim>\<open>appendToVariable\<close> stores the appended text
  alone, not the text \<^verbatim>\<open>null\<close> followed by it.
\<close>

theorem append_null_counterexample:
  "appendToVariable integer_host st_null ''x'' ''s'' =
     Inr (setVariable st_null ''x'' (JString ''s''))
   \<and> getVariable integer_host (setVariable st_null ''x'' (JString ''s'')) ''x'' =
     Inr (Value (JString ''s''))
   \<and> ToString integer_host JNull = Inr ''null''"
  by (simp add: appendToVariable_def getVariable_st_null get_after_set [OF selected_st_null])

text \<open>
  Claim C6, amended. With a workflow selected that has a mapping of its own: for a stored
  value \<open>v\<close> that is truthy or the empty string and whose text \<^verbatim>\<open>String(v)\<close> is \<open>t\<close>,
  \<^verbatim>\<open>appendToVariable\<close> stores \<open>t\<close> followed by the appended text; for a stored
  \<^verbatim>\<open>null\<close> or \<^verbatim>\<open>undefined\<close>, and for a variable that is absent and whose name is no
  property name of \<^verbatim>\<open>Object.prototype\<close>, it stores the appended text alone. What is
  stored is what \<^verbatim>\<open>getVariable\<close> then returns.
\<close>

theorem appendToVariable_text:
  assumes sel: "selected st = Some w" and own: "variables st w = Some vars"
  shows "(\<forall>v t. vars name = Some v \<and> (truthy P v \<or> v = JString []) \<and> ToString P v = Inr t \<longrightarrow>
            appendToVariable P st name s = Inr (setVariable st name (JString (t @ s))))
       \<and> (\<forall>v. vars name = Some v \<and> is_nullish v \<longrightarrow>
            appendToVariable P st name s = Inr (setVariable st name (JString s)))
       \<and> (vars name = None \<and> name \<notin> set object_prototype_names \<longrightarrow>
            appendToVariable P st name s = Inr (setVariable st name (JString s)))
       \<and> (\<forall>u. getVariable P (setVariable st name u) name = Inr (Value u))"
proof (intro conjI allI impI)
  fix v t
  assume a: "vars name = Some v \<and> (truthy P v \<or> v = JString []) \<and> ToString P v = Inr t"
  then have g: "getVariable P st name = Inr (Value v)"
    by (simp add: getVariable_own [OF sel own])
  from a show "appendToVariable P st name s = Inr (setVariable st name (JString (t @ s)))"
    by (auto simp: appendToVariable_def g)
next
  fix v
  assume a: "vars name = Some v \<and> is_nullish v"
  then have g: "getVariable P st name = Inr (Value v)"
    by (simp add: getVariable_own [OF sel own])
  from a have "\<not> truthy P v"
    by (cases v) simp_all
  then show "appendToVariable P st name s = Inr (setVariable st name (JString s))"
    by (simp add: appendToVariable_def g)
next
  assume a: "vars name = None \<and> name \<notin> set object_prototype_names"
  then have g: "getVariable P st name = Inr (Value JUndefined)"
    by (simp add: getVariable_own [OF sel own] inherited_object_def)
  show "appendToVariable P st name s = Inr (setVariable st name (JString s))"
    by (simp add: appendToVariable_def g)
next
  fix u
  show "getVariable P (setVariable st name u) name = Inr (Value u)"
    by (rule get_after_set [OF sel])
qed

lemma variables_fresh:
  "variables (setCurrentWorkflow initial_state ''wf'') ''wf'' = Some Map.empty"
  by (simp add: variables_setCurrentWorkflow_same initial_state_def wf_plain)

lemma variables_st6:
  "variables st6 ''wf'' = Some (Map.empty(''x'' \<mapsto> JNumber (DInt 6)))"
  by (simp add: st6_def variables_setVariable [OF selected_fresh] spread_vars_def variables_fresh)

lemma variables_st_null:
  "variables st_null ''wf'' = Some (Map.empty(''x'' \<mapsto> JNull))"
  by (simp add: st_null_def variables_setVariable [OF selected_fresh] spread_vars_def
      variables_fresh)

theorem appendToVariable_witness:
  "appendToVariable integer_host st6 ''x'' ''s'' = Inr (setVariable st6 ''x'' (JString ''6s''))
   \<and> appendToVariable integer_host st_null ''x'' ''s'' = Inr (setVariable st_null ''x'' (JString ''s''))
   \<and> appendToVariable integer_host st6 ''absent'' ''s'' =
       Inr (setVariable st6 ''absent'' (JString ''s''))
   \<and> getVariable integer_host (setVariable st6 ''x'' (JString ''6s'')) ''x'' =
       Inr (Value (JString ''6s''))"
proof -
  note a = appendToVariable_text [OF selected_st6 variables_st6, of "''x''" integer_host "''s''"]
  note b = appendToVariable_text [OF selected_st_null variables_st_null, of "''x''" integer_host "''s''"]
  note c = appendToVariable_text [OF selected_st6 variables_st6, of "''absent''" integer_host "''s''"]
  have r: "ToString integer_host (JNumber (DInt 6)) = Inr ''6''"
    by code_simp
  have t: "truthy integer_host (JNumber (DInt 6))"
    by (simp add: number_falsy_def integer_host_def)
  have p: "''absent'' \<notin> set object_prototype_names"
    by (simp add: object_prototype_names_def)
  from a r t have 1: "appendToVariable integer_host st6 ''x'' ''s'' =
      Inr (setVariable st6 ''x'' (JString (''6'' @ ''s'')))"
    by auto
  from b have 2: "appendToVariable integer_host st_null ''x'' ''s'' =
      Inr (setVariable st_null ''x'' (JString ''s''))"
    by simp
  from c p have 3: "appendToVariable integer_host st6 ''absent'' ''s'' =
      Inr (setVariable st6 ''absent'' (JString ''s''))"
    by simp
  from a have 4: "getVariable integer_host (setVariable st6 ''x'' (JString ''6s'')) ''x'' =
       Inr (Value (JString ''6s''))"
    by blast
  from 1 2 3 4 show ?thesis by simp
qed

text \<open>
  The remaining cases. The guard \<^verbatim>\<open>|| ''\<close> replaces every falsy value, also
  \<^verbatim>\<open>0\<close>, \<^verbatim>\<open>NaN\<close> and \<^verbatim>\<open>false\<close>. An absent variable named like a member of
  \<^verbatim>\<open>Object.prototype\<close> reads as that member, whose text is stored in front of the
  appended text. A value whose \<^verbatim>\<open>String\<close> raises makes the action raise.
\<close>

lemma appendToVariable_falsy:
  assumes "getVariable P st name = Inr r" and "\<not> reading_truthy P r"
  shows "appendToVariable P st name s = Inr (setVariable st name (JString s))"
  using assms by (simp add: appendToVariable_def)

lemma appendToVariable_inherited:
  "appendToVariable integer_host st6 ''toString'' ''s'' =
     Inr (setVariable st6 ''toString'' (JString ''function () { [native code] }s''))"
  by (simp add: appendToVariable_def getVariable_own [OF selected_st6 variables_st6]
      inherited_object_def object_prototype_names_def integer_host_def std_string_def
      object_prototype_ref_def array_prototype_ref_def std_object_member_def)

lemma appendToVariable_raises:
  "appendToVariable integer_host st_toString ''x'' ''s'' = Inl TypeError"
  by (simp add: appendToVariable_def getVariable_st_toString)

section \<open>Dotted paths\<close>






















text \<open>A segment that names an inherited member reads that member: the constructor of a
  mapping, a method of a list, the prototype of a prototype.\<close>

lemma getVariableByPath_inherited:
  "getVariableByPath integer_host st_quote ''quote.constructor'' =
     Inr (Host (HostRef ''Object.prototype.constructor''))
   \<and> getVariableByPath integer_host st_quote ''quote.legs.map'' =
     Inr (Host (HostRef ''Array.prototype.map''))
   \<and> getVariableByPath integer_host st_quote ''quote.__proto__.__proto__'' = Inr (Value JNull)"
  by code_simp

section \<open>Interpolation of templates\<close>

lemma match_placeholder_shape:
  assumes "match_placeholder s = Some (body, after)"
  shows "s = ''{{'' @ body @ ''}}'' @ after \<and> body \<noteq> [] \<and> CHR ''}'' \<notin> set body"
proof -
  from assms obtain t where s: "s = CHR ''{'' # CHR ''{'' # t"
    and b: "body = takeWhile (\<lambda>c. c \<noteq> CHR ''}'') t" and ne: "body \<noteq> []"
    and r: "dropWhile (\<lambda>c. c \<noteq> CHR ''}'') t = CHR ''}'' # CHR ''}'' # after"
    by (auto simp: match_placeholder_def Let_def split: list.splits if_splits)
  have "t = takeWhile (\<lambda>c. c \<noteq> CHR ''}'') t @ dropWhile (\<lambda>c. c \<noteq> CHR ''}'') t"
    by simp
  with b r have t: "t = body @ CHR ''}'' # CHR ''}'' # after"
    by simp
  have "CHR ''}'' \<notin> set body"
    unfolding b using set_takeWhileD by fastforce
  with s t ne show ?thesis by simp
qed

lemma segments_Nil: "segments [] = []"
  by (subst segments.simps) simp

lemma segments_match:
  "match_placeholder (c # cs) = Some (body, after) \<Longrightarrow>
     segments (c # cs) = Hole body # segments after"
  by (subst segments.simps) simp

lemma segments_no_match:
  "match_placeholder (c # cs) = None \<Longrightarrow> segments (c # cs) = Lit c # segments cs"
  by (subst segments.simps) simp

lemma replace_placeholders_Nil: "replace_placeholders f [] = Inr []"
  by (subst replace_placeholders.simps) simp

lemma replace_placeholders_match:
  "match_placeholder (c # cs) = Some (body, after) \<Longrightarrow>
     replace_placeholders f (c # cs) =
       (case f (segment_text (Hole body)) body of
          Inl e \<Rightarrow> Inl e
        | Inr replacement \<Rightarrow>
            (case replace_placeholders f after of
               Inl e \<Rightarrow> Inl e
             | Inr rest \<Rightarrow> Inr (replacement @ rest)))"
  by (subst replace_placeholders.simps) simp

lemma replace_placeholders_no_match:
  "match_placeholder (c # cs) = None \<Longrightarrow>
     replace_placeholders f (c # cs) =
       (case replace_placeholders f cs of Inl e \<Rightarrow> Inl e | Inr rest \<Rightarrow> Inr (c # rest))"
  by (subst replace_placeholders.simps) simp

lemma scalar_ToString:
  "\<not> is_nullish v \<Longrightarrow> \<not> typeof_object v \<Longrightarrow> ToString P v = Inr (scalar_text P v)"
  by (cases v) simp_all

lemma callback_reading:
  "(if reading_nullish r then Inr (segment_text (Hole body))
    else if reading_typeof_object P r then Inr (reading_json P r)
    else reading_to_string P r) =
   Inr (case value_text P r of None \<Rightarrow> segment_text (Hole body) | Some t \<Rightarrow> t)"
proof (cases r)
  case (Value v)
  then show ?thesis
    by (cases v) (simp_all add: json_text_def)
next
  case (Host h)
  then show ?thesis
    by (simp add: host_text_def)
qed

lemma callback_render:
  "interpolate_callback P st (segment_text (Hole body)) body = render_segment P st (Hole body)"
proof (cases "getVariableByPath P st (trim body)")
  case (Inl e)
  then show ?thesis
    by (simp add: interpolate_callback_def Let_def)
next
  case (Inr r)
  show ?thesis
    by (simp only: interpolate_callback_def Let_def Inr sum.case render_segment.simps
        callback_reading)
qed

lemma render_all_Nil: "render_all [] = Inr []"
  by (simp add: render_all_def)

lemma render_all_Cons:
  "render_all (r # rs) =
     (case r of
        Inl e \<Rightarrow> Inl e
      | Inr t \<Rightarrow> (case render_all rs of Inl e \<Rightarrow> Inl e | Inr rest \<Rightarrow> Inr (t @ rest)))"
  by (cases r; cases "sequence_results rs") (simp_all add: render_all_def)

lemma replace_segments:
  "replace_placeholders (interpolate_callback P st) s =
     render_all (map (render_segment P st) (segments s))"
proof (induction s rule: segments.induct)
  case (1 s)
  show ?case
  proof (cases s)
    case Nil
    then show ?thesis
      by (simp add: segments_Nil replace_placeholders_Nil render_all_Nil)
  next
    case (Cons c cs)
    show ?thesis
    proof (cases "match_placeholder s")
      case None
      with Cons 1(1) [OF Cons None] show ?thesis
        by (simp add: segments_no_match replace_placeholders_no_match render_all_Cons
            split: sum.splits)
    next
      case (Some p)
      obtain body after where p: "p = (body, after)" by (cases p)
      from Some p Cons have m: "match_placeholder (c # cs) = Some (body, after)"
        by simp
      from 1(2) [OF Cons Some p [symmetric]]
      have ih: "replace_placeholders (interpolate_callback P st) after =
          render_all (map (render_segment P st) (segments after))" .
      show ?thesis
        unfolding Cons segments_match [OF m] replace_placeholders_match [OF m] callback_render ih
        by (simp only: list.map render_all_Cons)
    qed
  qed
qed

lemma segments_text: "concat (map segment_text (segments s)) = s"
proof (induction s rule: segments.induct)
  case (1 s)
  show ?case
  proof (cases s)
    case Nil
    then show ?thesis by (simp add: segments_Nil)
  next
    case (Cons c cs)
    show ?thesis
    proof (cases "match_placeholder s")
      case None
      with Cons 1(1) [OF Cons None] show ?thesis
        by (simp add: segments_no_match)
    next
      case (Some p)
      obtain body after where p: "p = (body, after)" by (cases p)
      from Some p Cons have m: "match_placeholder (c # cs) = Some (body, after)"
        by simp
      from m have sh: "c # cs = ''{{'' @ body @ ''}}'' @ after"
        using match_placeholder_shape by blast
      from 1(2) [OF Cons Some p [symmetric]]
      have "concat (map segment_text (segments after)) = after" .
      then have "concat (map segment_text (Hole body # segments after)) = c # cs"
        by (simp add: sh)
      then show ?thesis
        by (simp only: Cons segments_match [OF m])
    qed
  qed
qed

lemma segments_holes:
  "Hole body \<in> set (segments s) \<Longrightarrow> body \<noteq> [] \<and> CHR ''}'' \<notin> set body"
proof (induction s rule: segments.induct)
  case (1 s)
  show ?case
  proof (cases s)
    case Nil
    with 1(3) show ?thesis by (simp add: segments_Nil)
  next
    case (Cons c cs)
    show ?thesis
    proof (cases "match_placeholder s")
      case None
      with Cons 1(3) have "Hole body \<in> set (segments cs)"
        by (simp add: segments_no_match)
      with 1(1) [OF Cons None] show ?thesis by simp
    next
      case (Some p)
      obtain b after where p: "p = (b, after)" by (cases p)
      from Some p Cons have m: "match_placeholder (c # cs) = Some (b, after)"
        by simp
      with Cons 1(3) have "body = b \<or> Hole body \<in> set (segments after)"
        by (simp add: segments_match)
      then show ?thesis
      proof
        assume "body = b"
        with m show ?thesis using match_placeholder_shape by blast
      next
        assume "Hole body \<in> set (segments after)"
        with 1(2) [OF Cons Some p [symmetric]] show ?thesis by simp
      qed
    qed
  qed
qed
text \<open>The occurrences of a template, without reference to the scan: text without an
  opening brace holds none, and after such text a non-empty body without a closing brace,
  between two opening and two closing braces, is one.\<close>

lemma match_placeholder_found:
  assumes "body \<noteq> []" and "CHR ''}'' \<notin> set body"
  shows "match_placeholder (''{{'' @ body @ ''}}'' @ rest) = Some (body, rest)"
proof -
  have t: "takeWhile (\<lambda>c. c \<noteq> CHR ''}'') (body @ CHR ''}'' # CHR ''}'' # rest) = body"
    using assms(2) by (induction body) auto
  have d: "dropWhile (\<lambda>c. c \<noteq> CHR ''}'') (body @ CHR ''}'' # CHR ''}'' # rest) =
      CHR ''}'' # CHR ''}'' # rest"
    using assms(2) by (induction body) auto
  show ?thesis
    using assms(1) by (simp add: match_placeholder_def Let_def t d)
qed

lemma match_placeholder_other:
  "c \<noteq> CHR ''{'' \<Longrightarrow> match_placeholder (c # cs) = None"
  by (simp add: match_placeholder_def split: list.splits)

lemma segments_occurrence:
  assumes "CHR ''{'' \<notin> set pre" and "body \<noteq> []" and "CHR ''}'' \<notin> set body"
  shows "segments (pre @ ''{{'' @ body @ ''}}'' @ rest) = map Lit pre @ Hole body # segments rest"
  using assms(1)
proof (induction pre)
  case Nil
  have "segments (CHR ''{'' # (CHR ''{'' # body @ ''}}'' @ rest)) = Hole body # segments rest"
    using match_placeholder_found [OF assms(2,3), of rest]
    by (intro segments_match) simp
  then show ?case by simp
next
  case (Cons c pre)
  then have "match_placeholder (c # (pre @ ''{{'' @ body @ ''}}'' @ rest)) = None"
    by (intro match_placeholder_other) auto
  then have "segments (c # (pre @ ''{{'' @ body @ ''}}'' @ rest)) =
      Lit c # segments (pre @ ''{{'' @ body @ ''}}'' @ rest)"
    by (rule segments_no_match)
  with Cons show ?case by simp
qed

lemma segments_plain: "CHR ''{'' \<notin> set s \<Longrightarrow> segments s = map Lit s"
proof (induction s)
  case Nil
  then show ?case by (simp add: segments_Nil)
next
  case (Cons c cs)
  then have "match_placeholder (c # cs) = None"
    by (intro match_placeholder_other) auto
  then have "segments (c # cs) = Lit c # segments cs"
    by (rule segments_no_match)
  with Cons show ?case by simp
qed

text \<open>
  A placeholder whose path holds a stored \<^verbatim>\<open>null\<close> is resolved by
  \<^verbatim>\<open>getVariableByPath\<close>, and \<^verbatim>\<open>interpolate\<close> leaves it as it stands.
\<close>

theorem interpolate_null_counterexample:
  "getVariableByPath integer_host st_null ''x'' = Inr (Value JNull)
   \<and> interpolate integer_host st_null ''value: {{x}}'' = Inr ''value: {{x}}''"
  by code_simp

text \<open>
  Claim C1, amended. \<^verbatim>\<open>interpolate\<close> returns the template with every placeholder
  occurrence rendered in place and every other character unchanged: the pieces of the
  template concatenate to the template, and the result is the concatenation of the
  rendered pieces. An occurrence \<^verbatim>\<open>{{body}}\<close> has a non-empty body without
  \<^verbatim>\<open>}\<close>, and every such text that follows text without \<^verbatim>\<open>{\<close> is an
  occurrence; it is replaced when its trimmed path yields a value other than not-found and
  \<^verbatim>\<open>null\<close> (a list or mapping by its JSON text, a scalar by \<^verbatim>\<open>String\<close>, an
  inherited host member by the text the host gives it), and is left character for
  character otherwise, also when the path holds a stored \<^verbatim>\<open>null\<close>. A read of the
  path that raises ends the interpolation with that error.
\<close>

theorem interpolate_segments:
  "interpolate P st template = render_all (map (render_segment P st) (segments template))
   \<and> concat (map segment_text (segments template)) = template
   \<and> (\<forall>body. Hole body \<in> set (segments template) \<longrightarrow> body \<noteq> [] \<and> CHR ''}'' \<notin> set body)
   \<and> (\<forall>pre body rest. CHR ''{'' \<notin> set pre \<and> body \<noteq> [] \<and> CHR ''}'' \<notin> set body \<longrightarrow>
         segments (pre @ ''{{'' @ body @ ''}}'' @ rest) = map Lit pre @ Hole body # segments rest)
   \<and> (\<forall>s. CHR ''{'' \<notin> set s \<longrightarrow> segments s = map Lit s)"
  using segments_holes [of _ template] segments_occurrence segments_plain
  by (simp add: interpolate_def replace_segments segments_text)

theorem interpolate_segments_witness:
  "interpolate integer_host st_quote
      ''LTP {{ quote.ltp }} at {{quote.depth}} / {{missing}} / {{quote.depth.bid}}'' =
    Inr (''LTP 100 at {'' @ [CHR 0x22] @ ''bid'' @ [CHR 0x22]
      @ '':null} / {{missing}} / {{quote.depth.bid}}'')"
proof -
  have "render_all (map (render_segment integer_host st_quote)
          (segments ''LTP {{ quote.ltp }} at {{quote.depth}} / {{missing}} / {{quote.depth.bid}}'')) =
    Inr (''LTP 100 at {'' @ [CHR 0x22] @ ''bid'' @ [CHR 0x22]
      @ '':null} / {{missing}} / {{quote.depth.bid}}'')"
    by code_simp
  with interpolate_segments [of integer_host st_quote
      "''LTP {{ quote.ltp }} at {{quote.depth}} / {{missing}} / {{quote.depth.bid}}''"]
  show ?thesis by (simp only:)
qed

text \<open>A placeholder that names an inherited member is replaced by the host's text of
  that member, and one whose read raises ends the interpolation.\<close>

lemma interpolate_inherited:
  "interpolate integer_host st_quote ''{{quote.constructor}}'' =
     Inr ''function () { [native code] }''
   \<and> interpolate integer_host st_quote ''{{quote.constructor.caller}}'' =
     Inr ''{{quote.constructor.caller}}''
   \<and> interpolate integer_host (setCurrentWorkflow initial_state ''constructor'')
       ''a {{caller}} b'' = Inl TypeError"
  by code_simp

section \<open>System variables\<close>

text \<open>
  Claim C3 asks that \<^verbatim>\<open>{{timestamp}}\<close>, \<^verbatim>\<open>{{date}}\<close>, \<^verbatim>\<open>{{time}}\<close> and
  \<^verbatim>\<open>{{datetime}}\<close> always resolve. In a context with a current workflow and no
  variable stored, \<^verbatim>\<open>getVariableByPath\<close> finds none of the four names and
  \<^verbatim>\<open>interpolate\<close> leaves each placeholder as it stands: the store never consults the
  table \<^verbatim>\<open>SYSTEM_VARIABLES\<close>.
\<close>

theorem system_variables_not_resolved:
  "list_all (\<lambda>k. getVariableByPath P (setCurrentWorkflow initial_state ''wf'') k =
          Inr (Value JUndefined)
        \<and> interpolate P (setCurrentWorkflow initial_state ''wf'') (''{{'' @ k @ ''}}'') =
            Inr (''{{'' @ k @ ''}}''))
     SYSTEM_VARIABLES_keys"
proof -
  let ?st = "setCurrentWorkflow (initial_state :: 'a VariableState) ''wf''"
  have vars: "variables ?st ''wf'' = Some Map.empty"
    by (simp add: setCurrentWorkflow_def initial_state_def Let_def object_prototype_names_def)
  have u: "\<And>k. CHR ''.'' \<notin> set k \<Longrightarrow> k \<notin> set object_prototype_names \<Longrightarrow>
      getVariableByPath P ?st k = Inr (Value JUndefined)"
    by (simp add: getVariableByPath_def selected_setCurrentWorkflow lookup_var_def vars
        inherited_object_def)
  have keys: "\<forall>k \<in> set SYSTEM_VARIABLES_keys.
      CHR ''.'' \<notin> set k \<and> k \<notin> set object_prototype_names \<and> trim k = k
      \<and> segments (''{{'' @ k @ ''}}'') = [Hole k]"
    by code_simp
  have "\<forall>k \<in> set SYSTEM_VARIABLES_keys.
      getVariableByPath P ?st k = Inr (Value JUndefined)
      \<and> interpolate P ?st (''{{'' @ k @ ''}}'') = Inr (''{{'' @ k @ ''}}'')"
  proof
    fix k assume "k \<in> set SYSTEM_VARIABLES_keys"
    with keys have k: "CHR ''.'' \<notin> set k" "k \<notin> set object_prototype_names" "trim k = k"
      "segments (''{{'' @ k @ ''}}'') = [Hole k]"
      by blast+
    show "getVariableByPath P ?st k = Inr (Value JUndefined)
      \<and> interpolate P ?st (''{{'' @ k @ ''}}'') = Inr (''{{'' @ k @ ''}}'')"
      unfolding interpolate_def replace_segments k(4)
      using u [OF k(1,2)]
      by (simp add: k(3) render_all_def)
  qed
  then show ?thesis
    by (simp only: list_all_iff)
qed

section \<open>Strike selection\<close>

lemma walk_strikes_closed: "walk_strikes strike step dir k = strike + int k * dir * step"
  by (induction k arbitrary: strike) (simp_all add: algebra_simps)

text \<open>
  Claim C8. With at-the-money strike \<open>A\<close> and strike step \<open>S\<close>: for \<^verbatim>\<open>CE\<close>, the offset
  \<^verbatim>\<open>ITM<k>\<close> resolves to \<open>A - k * S\<close> and \<^verbatim>\<open>OTM<k>\<close> to \<open>A + k * S\<close>; for
  \<^verbatim>\<open>PE\<close>, \<^verbatim>\<open>ITM<k>\<close> resolves to \<open>A + k * S\<close> and \<^verbatim>\<open>OTM<k>\<close> to
  \<open>A - k * S\<close>.
\<close>

theorem resolve_strike_directions:
  "resolve_strike A S CE (ITM k) = A - int k * S
   \<and> resolve_strike A S CE (OTM k) = A + int k * S
   \<and> resolve_strike A S PE (ITM k) = A + int k * S
   \<and> resolve_strike A S PE (OTM k) = A - int k * S"
  by (simp add: resolve_strike_def walk_strikes_closed)

text \<open>The responses documented in the client README, with strike step 50: at-the-money
  25950 (spot 25966.05) and 26050 (spot 26050.45 and 26052.65).\<close>

theorem resolve_strike_documented:
  "resolve_strike 25950 50 PE (ITM 4) = 26150
   \<and> resolve_strike 25950 50 CE (OTM 5) = 26200
   \<and> resolve_strike 26050 50 CE (OTM 6) = 26350
   \<and> resolve_strike 26050 50 PE (OTM 6) = 25750
   \<and> resolve_strike 26050 50 CE (OTM 4) = 26250
   \<and> resolve_strike 26050 50 PE (OTM 4) = 25850
   \<and> resolve_strike 26050 50 CE (ITM 2) = 25950
   \<and> resolve_strike 26050 50 CE (OTM 2) = 26150"
  using resolve_strike_directions [of 25950 50 4] resolve_strike_directions [of 25950 50 5]
    resolve_strike_directions [of 26050 50 6] resolve_strike_directions [of 26050 50 4]
    resolve_strike_directions [of 26050 50 2]
  by simp

section \<open>Split orders\<close>

lemma chunk_count_div_mod:
  assumes "0 < s" and "m < s"
  shows "chunk_count (d * s + m) s = (if m = 0 then d else Suc d)"
proof (cases "m = 0")
  case True
  have "d * s + s - 1 = (s - 1) + d * s"
    using assms(1) by simp
  then have "(d * s + s - 1) div s = d + (s - 1) div s"
    using assms(1) by (simp only: div_mult_self1)
  with True assms(1) show ?thesis
    by (simp add: chunk_count_def)
next
  case False
  have "d * s + m + s - 1 = (m - 1) + Suc d * s"
    using False by simp
  then have "(d * s + m + s - 1) div s = Suc d + (m - 1) div s"
    using assms(1) by (simp only: div_mult_self1)
  moreover have "(m - 1) div s = 0"
    using assms(2) by simp
  ultimately show ?thesis
    using False by (simp add: chunk_count_def)
qed

lemma map_const_upt:
  assumes "1 \<le> n" and "\<And>i. 1 \<le> i \<Longrightarrow> i < n \<Longrightarrow> f i = c"
  shows "map f [1 ..< Suc n] = replicate (n - 1) c @ [f n]"
proof -
  have "[1 ..< Suc n] = [1 ..< n] @ [n]"
    using assms(1) by simp
  moreover have "map f [1 ..< n] = replicate (n - 1) c"
    using assms(2) by (intro replicate_eqI) auto
  ultimately show ?thesis by simp
qed

lemma sum_list_chunks:
  "sum_list (replicate d s @ (if m = 0 then [] else [m])) = d * s + (m :: nat)"
  by (simp add: sum_list_replicate)

lemma split_chunks_div_mod:
  assumes s: "0 < s" and m: "m < s" and t: "0 < d * s + m"
  shows "1 \<le> chunk_count (d * s + m) s
     \<and> d * s + m \<le> chunk_count (d * s + m) s * s
     \<and> (chunk_count (d * s + m) s - 1) * s < d * s + m
     \<and> map snd (split_chunks (d * s + m) s) = replicate d s @ (if m = 0 then [] else [m])"
proof (cases "m = 0")
  case True
  with t obtain d' where d: "d = Suc d'"
    by (cases d) auto
  have n: "chunk_count (d * s + m) s = Suc d'"
    using chunk_count_div_mod [OF s m, of d] True d by simp
  have "chunk_quantity (d * s + m) s (Suc d') = d * s + m - (Suc d' - 1) * s"
    by (simp add: chunk_quantity_def n)
  also have "\<dots> = s"
    using True d by simp
  finally have q: "chunk_quantity (d * s + m) s (Suc d') = s" .
  have "map snd (split_chunks (d * s + m) s) =
      map (chunk_quantity (d * s + m) s) [1 ..< Suc (Suc d')]"
    by (simp add: split_chunks_def comp_def n)
  also have "\<dots> = replicate (Suc d' - 1) s @ [chunk_quantity (d * s + m) s (Suc d')]"
    by (rule map_const_upt) (simp_all add: chunk_quantity_def n)
  also have "\<dots> = replicate (Suc d') s"
    by (simp add: q replicate_append_same)
  finally have "map snd (split_chunks (d * s + m) s) = replicate d s @ (if m = 0 then [] else [m])"
    using True d by simp
  moreover have "(chunk_count (d * s + m) s - 1) * s < d * s + m"
    unfolding n using s d True by simp
  moreover have "d * s + m \<le> chunk_count (d * s + m) s * s"
    unfolding n using d True by simp
  ultimately show ?thesis by (simp add: n)
next
  case False
  have n: "chunk_count (d * s + m) s = Suc d"
    using chunk_count_div_mod [OF s m, of d] False by simp
  have q: "chunk_quantity (d * s + m) s (Suc d) = m"
    by (simp add: chunk_quantity_def n)
  have "map snd (split_chunks (d * s + m) s) =
      map (chunk_quantity (d * s + m) s) [1 ..< Suc (Suc d)]"
    by (simp add: split_chunks_def comp_def n)
  also have "\<dots> = replicate (Suc d - 1) s @ [chunk_quantity (d * s + m) s (Suc d)]"
    by (rule map_const_upt) (simp_all add: chunk_quantity_def n)
  also have "\<dots> = replicate d s @ [m]"
    by (simp add: q)
  finally have "map snd (split_chunks (d * s + m) s) = replicate d s @ (if m = 0 then [] else [m])"
    using False by simp
  moreover have "(chunk_count (d * s + m) s - 1) * s < d * s + m"
    unfolding n using False by simp
  moreover have "d * s + m \<le> chunk_count (d * s + m) s * s"
    unfolding n using m by simp
  ultimately show ?thesis by (simp add: n)
qed

text \<open>
  Claim C9. For positive \<open>totalQuantity\<close> and \<open>splitSize\<close> the split produces exactly
  \<^verbatim>\<open>ceil(totalQuantity / splitSize)\<close> chunks (the least \<open>n\<close> with
  \<open>totalQuantity \<le> n * splitSize\<close>), numbered 1, 2, ... in the order of submission; each
  has quantity \<open>splitSize\<close>, except that a final chunk of quantity
  \<open>totalQuantity mod splitSize\<close> follows when that is not zero; the quantities add up to
  \<open>totalQuantity\<close>. For 105 and 20 these are the six chunks 20, 20, 20, 20, 20, 5 of the
  documented response.
\<close>

theorem split_chunks_partition:
  assumes t: "0 < totalQuantity" and s: "0 < splitSize"
  shows "length (split_chunks totalQuantity splitSize) = chunk_count totalQuantity splitSize
     \<and> totalQuantity \<le> chunk_count totalQuantity splitSize * splitSize
     \<and> (chunk_count totalQuantity splitSize - 1) * splitSize < totalQuantity
     \<and> map fst (split_chunks totalQuantity splitSize) =
          [1 ..< Suc (chunk_count totalQuantity splitSize)]
     \<and> map snd (split_chunks totalQuantity splitSize) =
          replicate (totalQuantity div splitSize) splitSize
          @ (if totalQuantity mod splitSize = 0 then [] else [totalQuantity mod splitSize])
     \<and> sum_list (map snd (split_chunks totalQuantity splitSize)) = totalQuantity"
proof -
  let ?d = "totalQuantity div splitSize"
  let ?m = "totalQuantity mod splitSize"
  have dm: "?d * splitSize + ?m = totalQuantity"
    by (rule div_mult_mod_eq)
  have m: "?m < splitSize"
    using s by simp
  from t dm have t': "0 < ?d * splitSize + ?m"
    by simp
  note main = split_chunks_div_mod [OF s m t', unfolded dm]
  have len: "length (split_chunks totalQuantity splitSize) = chunk_count totalQuantity splitSize"
    by (simp add: split_chunks_def)
  have fsts: "map fst (split_chunks totalQuantity splitSize) =
      [1 ..< Suc (chunk_count totalQuantity splitSize)]"
    by (simp add: split_chunks_def comp_def)
  from main have snds: "map snd (split_chunks totalQuantity splitSize) =
      replicate ?d splitSize @ (if ?m = 0 then [] else [?m])"
    by blast
  have "sum_list (replicate ?d splitSize @ (if ?m = 0 then [] else [?m])) = ?d * splitSize + ?m"
    by (rule sum_list_chunks)
  then have sum: "sum_list (map snd (split_chunks totalQuantity splitSize)) = totalQuantity"
    by (simp only: snds dm)
  from main len fsts snds sum show ?thesis by blast
qed

theorem split_chunks_witness:
  "split_chunks 105 20 = [(1, 20), (2, 20), (3, 20), (4, 20), (5, 20), (6, 5)]
   \<and> length (split_chunks 105 20) = 6
   \<and> map snd (split_chunks 105 20) = [20, 20, 20, 20, 20, 5]
   \<and> map fst (split_chunks 105 20) = [1, 2, 3, 4, 5, 6]"
proof -
  have e: "split_chunks 105 20 = [(1, 20), (2, 20), (3, 20), (4, 20), (5, 20), (6, 5)]"
    by code_simp
  have c: "chunk_count 105 20 = 6"
    by code_simp
  from split_chunks_partition [of 105 20] have "length (split_chunks 105 20) = chunk_count 105 20"
    by simp
  with e c show ?thesis by simp
qed

end
